theory Spec2Isabelle
  imports Main "HOL-Library.Sublist"
begin

section \<open>Data model of the upload hook (src/hooks/useAssetLibrary.ts)\<close>

text \<open>
  A timestamp column as JavaScript sees it after \<open>new Date(s)\<close>: either an instant in
  milliseconds since the epoch, or an invalid date (whose \<open>getTime()\<close> is NaN).
\<close>

datatype jsdate = Instant int | InvalidDate

text \<open>
  \<open>interface SocialConnection\<close>.  \<open>token_expires_at\<close> is \<open>None\<close> for null (and for
  the empty string, which is falsy as well).
\<close>

record SocialConnection =
  conn_id :: string
  platform :: string
  access_token :: string
  refresh_token :: "string option"
  token_expires_at :: "jsdate option"
  is_active :: bool

text \<open>\<open>interface AssetToUpload\<close>; the asset type is the string stored in the row.\<close>

record AssetToUpload =
  asset_id :: string
  title :: string
  asset_type :: string
  asset_url :: string
  description :: "string option"
  tags :: "string list option"

text \<open>\<open>interface UploadResult\<close>.\<close>

record UploadResult =
  success :: bool
  res_platform :: string
  message :: string
  url :: "string option"
  error :: "string option"

section \<open>JavaScript strings and numbers\<close>

text \<open>An integer in a template literal is rendered in decimal.\<close>

definition digit_char :: "nat \<Rightarrow> char" where
  "digit_char d = ''0123456789'' ! d"

fun dec_nat :: "nat \<Rightarrow> string" where
  "dec_nat n = (if n < 10 then [digit_char n] else dec_nat (n div 10) @ [digit_char (n mod 10)])"

declare dec_nat.simps [simp del]

definition js_int_string :: "int \<Rightarrow> string" where
  "js_int_string i = (if i < 0 then CHR ''-'' # dec_nat (nat (- i)) else dec_nat (nat i))"

text \<open>\<open>Array.prototype.join\<close>.\<close>

fun js_join :: "string \<Rightarrow> string list \<Rightarrow> string" where
  "js_join sep [] = []"
| "js_join sep [x] = x"
| "js_join sep (x # y # ys) = x @ sep @ js_join sep (y # ys)"

text \<open>The double quote, which the messages put around the asset title.\<close>

definition dquote :: string where
  "dquote = [CHR 0x22]"

text \<open>Truthiness of a nullable string: null, undefined and the empty string are falsy.\<close>

definition truthy :: "string option \<Rightarrow> bool" where
  "truthy s = (case s of None \<Rightarrow> False | Some v \<Rightarrow> v \<noteq> [])"

text \<open>\<open>s || d\<close> on a nullable string.\<close>

definition or_default :: "string option \<Rightarrow> string \<Rightarrow> string" where
  "or_default s d = (case s of None \<Rightarrow> d | Some v \<Rightarrow> if v = [] then d else v)"

section \<open>What the upload hook does to the outside world\<close>

text \<open>The body of the \<open>supabase.functions.invoke('youtube-oauth', ...)\<close> request.\<close>

record invoke_body =
  ib_action :: string
  ib_userId :: string
  ib_videoUrl :: string
  ib_title :: string
  ib_description :: string
  ib_tags :: "string list"
  ib_privacyStatus :: string

text \<open>
  The observable actions of the hook, in the order it performs them: timers, the POST to
  the token endpoint (with the refresh token it sends), the calls to the Supabase client
  and the writes to \<open>localStorage\<close>.
\<close>

datatype effect =
    Delay nat
  | RefreshPost string
  | AuthGetUser
  | DbTokenUpdate string string jsdate
  | LocalStorageSetToken string string
  | LocalStorageSetExpiry string jsdate
  | FunctionsInvoke invoke_body

fun is_network_call :: "effect \<Rightarrow> bool" where
  "is_network_call (Delay _) = False"
| "is_network_call (RefreshPost _) = True"
| "is_network_call AuthGetUser = True"
| "is_network_call (DbTokenUpdate _ _ _) = True"
| "is_network_call (LocalStorageSetToken _ _) = False"
| "is_network_call (LocalStorageSetExpiry _ _) = False"
| "is_network_call (FunctionsInvoke _) = True"

text \<open>
  The reply of the token endpoint to a refresh: the \<open>fetch\<close> (or the decoding of its
  body) throws, the status is not 2xx, or the body carries \<open>access_token\<close> and
  \<open>expires_in\<close> (seconds).
\<close>

datatype refresh_reply = RefreshThrows string | RefreshNotOk nat | RefreshOk string int

text \<open>A call that may throw instead of returning.\<close>

datatype 'a outcome = Threw string | Returned 'a

text \<open>
  The reply of \<open>functions.invoke\<close>: it throws, it returns \<open>error\<close> with a message, or it
  returns \<open>data\<close> (possibly null) with the fields \<open>success\<close>, \<open>url\<close> and \<open>error\<close>.
\<close>

record invoke_data =
  id_success :: bool
  id_url :: "string option"
  id_error :: "string option"

datatype invoke_reply = InvokeThrows string | InvokeError string | InvokeData "invoke_data option"

text \<open>
  Everything the hook reads from outside: the clock at each of its reads, the rows that
  \<open>getConnectedPlatforms\<close> returns, and the replies of the services it calls.
\<close>

record client_env =
  now_check :: int
  now_refresh :: int
  now_final :: int
  now_mock :: int
  refresh_response :: refresh_reply
  get_user :: "string option outcome"
  db_update_throws :: bool
  invoke_response :: invoke_reply
  connections :: "SocialConnection list"

section \<open>The platform upload functions\<close>

subsection \<open>YouTube\<close>

definition isTestConnection_youtube :: "SocialConnection \<Rightarrow> bool" where
  "isTestConnection_youtube c =
     (access_token c = ''demo_access_token_youtube'' \<or>
      prefix ''test-youtube-token-'' (access_token c) \<or>
      conn_id c = ''mock-youtube'')"

text \<open>\<open>expiryDate.getTime() - now.getTime() <= 300000\<close>; false when the date is invalid.\<close>

definition expires_within :: "jsdate \<Rightarrow> int \<Rightarrow> bool" where
  "expires_within d now = (case d of InvalidDate \<Rightarrow> False | Instant t \<Rightarrow> t - now \<le> 300000)"

text \<open>\<open>new Date(token_expires_at) <= new Date()\<close>; false when the date is invalid.\<close>

definition date_le :: "jsdate \<Rightarrow> int \<Rightarrow> bool" where
  "date_le d now = (case d of InvalidDate \<Rightarrow> False | Instant t \<Rightarrow> t \<le> now)"

text \<open>
  The write of the refreshed token: \<open>auth.getUser\<close>, then the update of the connection
  row; if either throws, the token goes to \<open>localStorage\<close> instead.
\<close>

definition storeRefreshedToken :: "client_env \<Rightarrow> string \<Rightarrow> jsdate \<Rightarrow> effect list" where
  "storeRefreshedToken env tok newExpiresAt =
     (case get_user env of
        Threw _ \<Rightarrow>
          [AuthGetUser, LocalStorageSetToken ''youtube_access_token'' tok,
           LocalStorageSetExpiry ''youtube_expires_at'' newExpiresAt]
      | Returned u \<Rightarrow>
          (let updateUserId = or_default u ''default_user'' in
           if db_update_throws env then
             [AuthGetUser, DbTokenUpdate updateUserId tok newExpiresAt,
              LocalStorageSetToken ''youtube_access_token'' tok,
              LocalStorageSetExpiry ''youtube_expires_at'' newExpiresAt]
           else [AuthGetUser, DbTokenUpdate updateUserId tok newExpiresAt]))"

text \<open>
  The token check of \<open>uploadToYouTube\<close> up to the final expiry test: the connection as the
  refresh leaves it (it is mutated in place), and what was done.
\<close>

definition refreshIfExpiring :: "client_env \<Rightarrow> SocialConnection \<Rightarrow> SocialConnection \<times> effect list" where
  "refreshIfExpiring env c =
     (case token_expires_at c of
        None \<Rightarrow> (c, [])
      | Some d \<Rightarrow>
          if expires_within d (now_check env) then
            (case refresh_token c of
               None \<Rightarrow> (c, [])
             | Some rt \<Rightarrow>
                 if rt = [] then (c, [])
                 else
                   (case refresh_response env of
                      RefreshThrows e \<Rightarrow> (c, [RefreshPost rt])
                    | RefreshNotOk st \<Rightarrow> (c, [RefreshPost rt])
                    | RefreshOk tok expires_in \<Rightarrow>
                        (let newExpiresAt = Instant (now_refresh env + expires_in * 1000) in
                         (c\<lparr>access_token := tok, token_expires_at := Some newExpiresAt\<rparr>,
                          RefreshPost rt # storeRefreshedToken env tok newExpiresAt))))
          else (c, []))"

text \<open>The request to the \<open>youtube-oauth\<close> function and what the hook makes of its reply.\<close>

definition uploadRequest :: "AssetToUpload \<Rightarrow> string \<Rightarrow> invoke_body" where
  "uploadRequest asset currentUserId =
     \<lparr>ib_action = ''upload_video'', ib_userId = currentUserId, ib_videoUrl = asset_url asset,
      ib_title = title asset,
      ib_description =
        or_default (description asset)
          (''Generated with FeedGenesis\<newline>\<newline>Tags: '' @
           or_default (map_option (js_join '', '') (tags asset)) ''video, content'' @
           ''\<newline>\<newline>Created using AI-powered video generation.''),
      ib_tags = (case tags asset of None \<Rightarrow> [''video'', ''content'', ''AI'', ''generated''] | Some ts \<Rightarrow> ts),
      ib_privacyStatus = ''public''\<rparr>"

definition manualUploadResult :: "AssetToUpload \<Rightarrow> UploadResult" where
  "manualUploadResult asset =
     \<lparr>success = False, res_platform = ''youtube'',
      message = ''Unable to upload '' @ dquote @ title asset @ dquote @
        '' to YouTube. Please upload manually: '' @ asset_url asset,
      url = None,
      error = Some ''Direct upload blocked by CORS policy. Please upload the video manually to your YouTube channel.''\<rparr>"

definition invokeUpload :: "client_env \<Rightarrow> AssetToUpload \<Rightarrow> UploadResult \<times> effect list" where
  "invokeUpload env asset =
     (case get_user env of
        Threw _ \<Rightarrow> (manualUploadResult asset, [AuthGetUser])
      | Returned u \<Rightarrow>
          (let currentUserId = or_default u ''default_user'';
               effs = [AuthGetUser, FunctionsInvoke (uploadRequest asset currentUserId)]
           in case invoke_response env of
                InvokeThrows _ \<Rightarrow> (manualUploadResult asset, effs)
              | InvokeError _ \<Rightarrow> (manualUploadResult asset, effs)
              | InvokeData None \<Rightarrow> (manualUploadResult asset, effs)
              | InvokeData (Some d) \<Rightarrow>
                  if id_success d then
                    (\<lparr>success = True, res_platform = ''youtube'',
                      message = ''Successfully uploaded '' @ dquote @ title asset @ dquote @
                        '' to YouTube'',
                      url = id_url d, error = None\<rparr>, effs)
                  else (manualUploadResult asset, effs)))"

text \<open>
  \<open>uploadToYouTube\<close>.  Every statement that can throw sits in a \<open>try\<close> of its own whose
  handler returns a result, so the outer handler of the function is never entered.
\<close>

definition uploadToYouTube :: "client_env \<Rightarrow> AssetToUpload \<Rightarrow> SocialConnection \<Rightarrow> UploadResult \<times> effect list" where
  "uploadToYouTube env asset connection =
     (if isTestConnection_youtube connection then
        (\<lparr>success = True, res_platform = ''youtube'',
          message = ''Successfully uploaded '' @ dquote @ title asset @ dquote @
            '' to YouTube (Test Mode)'',
          url = Some (''https://www.youtube.com/watch?v=test-video-'' @ js_int_string (now_mock env)),
          error = None\<rparr>, [Delay 2000])
      else
        (let (connection', effs) = refreshIfExpiring env connection in
         if (case token_expires_at connection' of None \<Rightarrow> False
             | Some d \<Rightarrow> date_le d (now_final env)) then
           (\<lparr>success = False, res_platform = ''youtube'',
             message = ''YouTube token has expired. Please reconnect your account.'',
             url = None, error = Some ''Token expired''\<rparr>, effs)
         else if asset_type asset \<noteq> ''video'' then
           (\<lparr>success = False, res_platform = ''youtube'',
             message = ''YouTube only supports video uploads.'',
             url = None, error = Some ''Unsupported asset type''\<rparr>, effs)
         else if asset_url asset = [] \<or> asset_url asset = ''processing'' \<or>
                 asset_url asset = ''pending'' then
           (\<lparr>success = False, res_platform = ''youtube'',
             message = ''Video is not ready for upload. Please wait for processing to complete.'',
             url = None, error = Some ''Asset not ready''\<rparr>, effs)
         else (let (r, effs') = invokeUpload env asset in (r, effs @ effs'))))"

subsection \<open>Instagram and Facebook\<close>

definition uploadToInstagram :: "client_env \<Rightarrow> AssetToUpload \<Rightarrow> SocialConnection \<Rightarrow> UploadResult \<times> effect list" where
  "uploadToInstagram env asset connection =
     (if access_token connection = ''demo_access_token_instagram'' then
        (\<lparr>success = True, res_platform = ''instagram'',
          message = ''Successfully uploaded '' @ dquote @ title asset @ dquote @
            '' to Instagram (Test Mode)'',
          url = Some (''https://www.instagram.com/p/test-post-'' @ js_int_string (now_mock env) @ ''/''),
          error = None\<rparr>, [Delay 1500])
      else
        (\<lparr>success = False, res_platform = ''instagram'',
          message = ''Instagram posting requires manual upload. The Instagram API has restrictions that require app review.'',
          url = None, error = Some ''Manual posting required''\<rparr>, []))"

definition uploadToFacebook :: "client_env \<Rightarrow> AssetToUpload \<Rightarrow> SocialConnection \<Rightarrow> UploadResult \<times> effect list" where
  "uploadToFacebook env asset connection =
     (if access_token connection = ''demo_access_token_facebook'' then
        (\<lparr>success = True, res_platform = ''facebook'',
          message = ''Successfully uploaded '' @ dquote @ title asset @ dquote @
            '' to Facebook (Test Mode)'',
          url = Some (''https://www.facebook.com/posts/test-facebook-post-'' @ js_int_string (now_mock env)),
          error = None\<rparr>, [Delay 1000])
      else
        (\<lparr>success = False, res_platform = ''facebook'',
          message = ''Facebook posting will be available in a future update. For now, please post manually.'',
          url = None, error = Some ''Manual posting required''\<rparr>, []))"

section \<open>The fan-out: \<open>uploadToSocialMedia\<close>\<close>

text \<open>The \<open>switch\<close> on the connection's platform.\<close>

definition dispatch :: "client_env \<Rightarrow> AssetToUpload \<Rightarrow> SocialConnection \<Rightarrow> UploadResult \<times> effect list" where
  "dispatch env asset connection =
     (if platform connection = ''youtube'' then uploadToYouTube env asset connection
      else if platform connection = ''instagram'' then uploadToInstagram env asset connection
      else if platform connection = ''facebook'' then uploadToFacebook env asset connection
      else
        (\<lparr>success = False, res_platform = platform connection,
          message = ''Upload to '' @ platform connection @ '' is not yet supported.'',
          url = None, error = Some ''Platform not supported''\<rparr>, []))"




section \<open>JavaScript numbers in the edge functions\<close>

text \<open>
  A JavaScript number that holds a byte offset: an integer or NaN.  The numbers of
  JavaScript are floating-point numbers; their arithmetic is exact on the integers up to
  \<open>Number.MAX_SAFE_INTEGER\<close>, and so is this model.  Beyond it the code rounds and the
  model does not.
\<close>

datatype jsnum = Num int | NaN

definition max_safe_integer :: nat where
  "max_safe_integer = 2 ^ 53 - 1"

definition js_add :: "jsnum \<Rightarrow> int \<Rightarrow> jsnum" where
  "js_add x k = (case x of NaN \<Rightarrow> NaN | Num i \<Rightarrow> Num (i + k))"

text \<open>\<open>Math.min(x, n)\<close>.\<close>

definition js_min :: "jsnum \<Rightarrow> int \<Rightarrow> jsnum" where
  "js_min x n = (case x of NaN \<Rightarrow> NaN | Num i \<Rightarrow> Num (min i n))"

text \<open>\<open>x < n\<close>, which is false for NaN.\<close>

definition js_less :: "jsnum \<Rightarrow> int \<Rightarrow> bool" where
  "js_less x n = (case x of NaN \<Rightarrow> False | Num i \<Rightarrow> i < n)"

definition js_num_string :: "jsnum \<Rightarrow> string" where
  "js_num_string x = (case x of NaN \<Rightarrow> ''NaN'' | Num i \<Rightarrow> js_int_string i)"

text \<open>\<open>String.prototype.split\<close> with a one-character separator.\<close>

fun js_split :: "char \<Rightarrow> string \<Rightarrow> string list" where
  "js_split sep [] = [[]]"
| "js_split sep (c # cs) =
     (if c = sep then [] # js_split sep cs
      else (case js_split sep cs of [] \<Rightarrow> [[c]] | x # xs \<Rightarrow> (c # x) # xs))"

text \<open>
  \<open>parseInt\<close> without a radix: leading white space is skipped, a sign is read, the
  prefix \<open>0x\<close> selects base 16, and the longest run of digits of the base is the value;
  without any digit the result is NaN.  The value of a header is a string of characters
  below 256; the white space of JavaScript among them is the tab, the line feed, the
  vertical tab, the form feed, the carriage return, the space and the no-break space.
\<close>

definition is_js_space :: "char \<Rightarrow> bool" where
  "is_js_space c =
     (c \<in> {CHR 0x09, CHR 0x0A, CHR 0x0B, CHR 0x0C, CHR 0x0D, CHR 0x20, CHR 0xA0})"

definition digit_value :: "char \<Rightarrow> nat option" where
  "digit_value c =
     (let n = (of_char c :: nat) in
      if 48 \<le> n \<and> n \<le> 57 then Some (n - 48)
      else if 97 \<le> n \<and> n \<le> 122 then Some (n - 87)
      else if 65 \<le> n \<and> n \<le> 90 then Some (n - 55)
      else None)"

fun leading_digits :: "nat \<Rightarrow> string \<Rightarrow> nat list" where
  "leading_digits r [] = []"
| "leading_digits r (c # cs) =
     (case digit_value c of
        None \<Rightarrow> []
      | Some d \<Rightarrow> if d < r then d # leading_digits r cs else [])"

definition digits_value :: "nat \<Rightarrow> nat list \<Rightarrow> nat" where
  "digits_value r ds = foldl (\<lambda>a d. a * r + d) 0 ds"

fun strip_sign :: "string \<Rightarrow> bool \<times> string" where
  "strip_sign [] = (False, [])"
| "strip_sign (c # cs) =
     (if c = CHR ''-'' then (True, cs) else if c = CHR ''+'' then (False, cs) else (False, c # cs))"

fun strip_radix :: "string \<Rightarrow> nat \<times> string" where
  "strip_radix (a # b # cs) =
     (if a = CHR ''0'' \<and> (b = CHR ''x'' \<or> b = CHR ''X'') then (16, cs) else (10, a # b # cs))"
| "strip_radix cs = (10, cs)"

definition parseInt :: "string \<Rightarrow> jsnum" where
  "parseInt s =
     (let (neg, u) = strip_sign (dropWhile is_js_space s);
          (r, v) = strip_radix u;
          ds = leading_digits r v
      in if ds = [] then NaN
         else Num ((if neg then - 1 else 1) * int (digits_value r ds)))"

text \<open>
  \<open>Uint8Array.prototype.slice\<close> turns a bound into an index of the array: NaN is 0, a
  negative bound counts from the end, and the result is clamped to the length.
\<close>

definition slice_index :: "jsnum \<Rightarrow> nat \<Rightarrow> nat" where
  "slice_index x len =
     (case x of NaN \<Rightarrow> 0
      | Num i \<Rightarrow> if i < 0 then nat (max (int len + i) 0) else nat (min i (int len)))"

section \<open>The chunked upload loop of the edge functions\<close>

text \<open>
  What an edge function can throw; the handler at the end of the function turns it into
  the error message of the response.  \<open>Exception\<close> is an error thrown by the runtime (a
  \<open>fetch\<close> that fails, a body that is not JSON); the others are the \<open>throw new Error\<close>
  of the source, \<open>RefreshError\<close> and \<open>VideoProcessingFailed\<close> being the two handlers of
  youtube-oauth that wrap the error they caught.  (The messages carry the status where
  a constructor has one.)
\<close>

datatype failure =
    Exception string
  | MissingFields
  | NotConnected
  | NoRefreshToken
  | RefreshRejected nat
  | RefreshError failure
  | VideoFetchFailed nat
  | EmptyVideo
  | VideoTooLarge nat
  | InitFailed nat
  | NoUploadUrl
  | ChunkFailed nat
  | NoVideoId
  | VideoProcessingFailed failure
  | CredentialsNotConfigured
  | TokenExchangeFailed nat
  | ChannelFetchFailed
  | NoChannel
  | SaveFailed
  | RefreshTokenRequired
  | TokenRefreshFailed nat
  | UpdateFailed
  | DisconnectFailed
  | InvalidAction
  | ProfileFetchFailed

text \<open>
  The requests an edge function sends, in order:
  \<^item> \<open>ConnectionSelect u p\<close>, \<open>ConnectionUpsert u t i\<close>, \<open>ConnectionDelete u\<close>: the query,
    the upsert (with access token \<open>t\<close> and platform user id \<open>i\<close>) and the deletion of the
    connection row of user \<open>u\<close> (and platform \<open>p\<close>);
  \<^item> \<open>ConnectionUpdate k t d\<close>: the update of the row with id (or user) \<open>k\<close> to the access
    token \<open>t\<close> and the expiry date \<open>d\<close>;
  \<^item> \<open>TokenRefresh r\<close>, \<open>TokenExchange c\<close>, \<open>LongLivedTokenExchange t\<close>: the POST of the
    refresh token \<open>r\<close> or of the authorization code \<open>c\<close> to the token endpoint, and the
    exchange of the token \<open>t\<close> for a long-lived one;
  \<^item> \<open>ChannelFetch t\<close>, \<open>ProfileFetch t\<close>: the request for the channel or the profile with
    the token \<open>t\<close>;
  \<^item> \<open>VideoFetch u\<close>: the download of the video from \<open>u\<close>;
  \<^item> \<open>UploadInit t n m s\<close>: the POST that opens the upload session, with
    \<open>Authorization: Bearer t\<close>, \<open>X-Upload-Content-Length: n\<close>, \<open>X-Upload-Content-Type: m\<close>
    and the title \<open>s\<close> in the metadata;
  \<^item> \<open>ChunkPut n r a b\<close>: the PUT of one chunk, with \<open>Content-Length: n\<close> and
    \<open>Content-Range: r\<close>; the body is the bytes of the video from index \<open>a\<close> up to, not
    including, index \<open>b\<close> (no byte when \<open>b \<le> a\<close>).
\<close>

datatype call =
    ConnectionSelect string string
  | TokenRefresh string
  | ConnectionUpdate string string jsdate
  | VideoFetch string
  | UploadInit string nat string string
  | ChunkPut nat string nat nat
  | TokenExchange string
  | ChannelFetch string
  | ConnectionUpsert string string string
  | ConnectionDelete string
  | LongLivedTokenExchange string
  | ProfileFetch string

definition chunkSize :: nat where
  "chunkSize = 1024 * 1024 * 5"

text \<open>\<open>const end = Math.min(start + chunkSize, videoArray.length)\<close>.\<close>

definition chunk_stop :: "jsnum \<Rightarrow> nat \<Rightarrow> jsnum" where
  "chunk_stop start len = js_min (js_add start (int chunkSize)) (int len)"

text \<open>The PUT of the chunk \<open>videoArray.slice(start, end)\<close> with its two headers.\<close>

definition chunk_put :: "jsnum \<Rightarrow> nat \<Rightarrow> call" where
  "chunk_put start len =
     (let stop = chunk_stop start len;
          from = slice_index start len;
          to = slice_index stop len
      in ChunkPut (to - from)
           (''bytes '' @ js_num_string start @ ''-'' @ js_num_string (js_add stop (- 1)) @
            ''/'' @ dec_nat len)
           from to)"

text \<open>
  The reply to a chunk PUT: the \<open>fetch\<close> throws, or there is a status, possibly a
  \<open>Range\<close> header, and a body, which is not JSON (\<open>json()\<close> throws the error given),
  the JSON \<open>null\<close>, or a video resource with its \<open>id\<close> and \<open>snippet.title\<close>.
\<close>

datatype put_body = NotJson string | JsonNull | JsonVideo "string option" "string option"

datatype chunk_reply = PutThrows string | PutResp nat "string option" put_body

text \<open>\<open>parseInt(range.split('-')[1])\<close>; \<open>parseInt(undefined)\<close> is NaN.\<close>

definition rangeEnd :: "string \<Rightarrow> jsnum" where
  "rangeEnd hdr = (case js_split CHR ''-'' hdr of _ # x # _ \<Rightarrow> parseInt x | _ \<Rightarrow> NaN)"

text \<open>
  The new value of \<open>start\<close> after a 308: \<open>rangeEnd + 1\<close> when the \<open>Range\<close> header is
  there (and not empty), the end of the chunk just sent otherwise.
\<close>

definition next_start :: "string option \<Rightarrow> jsnum \<Rightarrow> jsnum" where
  "next_start hdr stop =
     (case hdr of
        None \<Rightarrow> stop
      | Some r \<Rightarrow> if r = [] then stop else js_add (rangeEnd r) 1)"

text \<open>
  How the loop ends: with the JSON of the 200/201 reply, with \<open>result\<close> still null
  because the loop condition failed, or with an error thrown.
\<close>

datatype loop_end = Completed put_body | Exhausted | Raised failure

text \<open>
  The loop of youtube-upload, \<open>while (!uploadComplete)\<close>.  Its arguments are the replies
  of the platform (by number of the PUT), the length of the video, \<open>start\<close>, the number
  of PUTs sent so far and these PUTs.  The value is \<open>None\<close> when the loop runs forever.
\<close>

partial_function (option) upload_loop_edge ::
  "(nat \<Rightarrow> chunk_reply) \<Rightarrow> nat \<Rightarrow> jsnum \<Rightarrow> nat \<Rightarrow> call list \<Rightarrow> (loop_end \<times> call list) option" where
  "upload_loop_edge reply len start n sent =
     (case reply n of
        PutThrows e \<Rightarrow> Some (Raised (Exception e), sent @ [chunk_put start len])
      | PutResp st hdr b \<Rightarrow>
          if st = 200 \<or> st = 201 then
            (case b of
               NotJson e \<Rightarrow> Some (Raised (Exception e), sent @ [chunk_put start len])
             | _ \<Rightarrow> Some (Completed b, sent @ [chunk_put start len]))
          else if st = 308 then
            upload_loop_edge reply len (next_start hdr (chunk_stop start len)) (Suc n)
              (sent @ [chunk_put start len])
          else Some (Raised (ChunkFailed st), sent @ [chunk_put start len]))"

declare upload_loop_edge.simps [code]

text \<open>The loop of youtube-oauth, \<open>while (start < videoArray.length)\<close>.\<close>

partial_function (option) upload_loop_oauth ::
  "(nat \<Rightarrow> chunk_reply) \<Rightarrow> nat \<Rightarrow> jsnum \<Rightarrow> nat \<Rightarrow> call list \<Rightarrow> (loop_end \<times> call list) option" where
  "upload_loop_oauth reply len start n sent =
     (if js_less start (int len) then
        (case reply n of
           PutThrows e \<Rightarrow> Some (Raised (Exception e), sent @ [chunk_put start len])
         | PutResp st hdr b \<Rightarrow>
             if st = 200 \<or> st = 201 then
               (case b of
                  NotJson e \<Rightarrow> Some (Raised (Exception e), sent @ [chunk_put start len])
                | _ \<Rightarrow> Some (Completed b, sent @ [chunk_put start len]))
             else if st = 308 then
               upload_loop_oauth reply len (next_start hdr (chunk_stop start len)) (Suc n)
                 (sent @ [chunk_put start len])
             else Some (Raised (ChunkFailed st), sent @ [chunk_put start len]))
      else Some (Exhausted, sent))"

declare upload_loop_oauth.simps [code]

section \<open>Requests and responses of the edge functions\<close>

text \<open>
  The JSON body of a request as an object: a key that is absent is \<open>None\<close>.  The three
  functions read different keys of it.
\<close>

record json_request =
  j_action :: "string option"
  j_code :: "string option"
  j_state :: "string option"
  j_userId :: "string option"
  j_refresh_token :: "string option"
  j_videoUrl :: "string option"
  j_title :: "string option"
  j_description :: "string option"
  j_tags :: "string list option"
  j_privacyStatus :: "string option"

text \<open>
  A request: its method, the search parameters of its URL, and what \<open>await req.json()\<close>
  gives.
\<close>

record request =
  req_method :: string
  req_params :: "(string \<times> string) list"
  req_json :: "json_request outcome"

text \<open>
  The \<open>success: true\<close> bodies of the three functions: the authorization URL (client id,
  redirect URI and state), the connected account (name and id), the refreshed token with
  its expiry date, the disconnection, the connection check, and the uploaded video (id,
  URL and title).
\<close>

datatype payload =
    AuthUrl string string string
  | Connected string string
  | Refreshed string jsdate
  | Disconnected
  | ConnectionStatus bool "SocialConnection option"
  | Uploaded string string string

text \<open>
  A response body: \<open>null\<close>, a plain text, \<open>{success: true, ...}\<close> or
  \<open>{success: false, error: ...}\<close>.
\<close>

datatype body = NoBody | Text string | Success payload | Failure failure

record response =
  status :: nat
  body :: body

text \<open>\<open>new Response(body, init)\<close>: the status is 200 unless \<open>init\<close> gives one.\<close>

definition new_Response :: "body \<Rightarrow> nat option \<Rightarrow> response" where
  "new_Response b st = \<lparr>status = (case st of None \<Rightarrow> 200 | Some n \<Rightarrow> n), body = b\<rparr>"

text \<open>\<open>Response.ok\<close>.\<close>

definition http_ok :: "nat \<Rightarrow> bool" where
  "http_ok st = (200 \<le> st \<and> st \<le> 299)"

text \<open>
  What the two YouTube functions read from outside during an upload: the clock at the
  expiry check and when the new expiry date is computed, the connection row that the
  query with \<open>.single()\<close> returns (\<open>None\<close> for an error or no row), and the replies of
  the token endpoint, of the video URL (status, size and type of the blob), of the
  upload initiation (status and \<open>Location\<close> header) and of the chunk PUTs.
\<close>

record server_env =
  clock :: int
  clock_refresh :: int
  connection_row :: "SocialConnection option"
  token_reply :: refresh_reply
  video_reply :: "(nat \<times> nat \<times> string) outcome"
  init_reply :: "(nat \<times> string option) outcome"
  chunk_replies :: "nat \<Rightarrow> chunk_reply"

section \<open>The youtube-upload function (supabase/functions/youtube-upload/index.ts)\<close>

text \<open>
  The token check, lines 47 to 88: the access token the upload goes on with, or the
  error thrown, and the calls made.  Without a refresh token, or when the token endpoint
  answers with a status that is not 2xx, nothing is thrown and the token of the row is
  kept.
\<close>

definition token_check_upload :: "server_env \<Rightarrow> SocialConnection \<Rightarrow> (failure + string) \<times> call list" where
  "token_check_upload env c =
     (case token_expires_at c of
        None \<Rightarrow> (Inr (access_token c), [])
      | Some d \<Rightarrow>
          if expires_within d (clock env) then
            (case refresh_token c of
               None \<Rightarrow> (Inr (access_token c), [])
             | Some rt \<Rightarrow>
                 if rt = [] then (Inr (access_token c), [])
                 else
                   (case token_reply env of
                      RefreshThrows e \<Rightarrow> (Inl (Exception e), [TokenRefresh rt])
                    | RefreshNotOk st \<Rightarrow> (Inr (access_token c), [TokenRefresh rt])
                    | RefreshOk tok expires_in \<Rightarrow>
                        (Inr tok,
                         [TokenRefresh rt,
                          ConnectionUpdate (conn_id c) tok
                            (Instant (clock_refresh env + expires_in * 1000))])))
          else (Inr (access_token c), []))"

text \<open>\<open>if (!result || !result.id) throw ...\<close> and the success body.\<close>

definition video_result :: "string \<Rightarrow> put_body \<Rightarrow> failure + payload" where
  "video_result ttl b =
     (case b of
        JsonVideo (Some v) t \<Rightarrow>
          if v = [] then Inl NoVideoId
          else Inr (Uploaded v (''https://www.youtube.com/watch?v='' @ v) (or_default t ttl))
      | _ \<Rightarrow> Inl NoVideoId)"

text \<open>
  From the download of the video to the end of the loop, lines 90 to 209; \<open>pre\<close> are
  the calls made before.
\<close>

definition transfer_upload ::
  "server_env \<Rightarrow> string \<Rightarrow> string \<Rightarrow> string \<Rightarrow> call list \<Rightarrow> ((failure + payload) \<times> call list) option" where
  "transfer_upload env vurl ttl tok pre =
     (case video_reply env of
        Threw e \<Rightarrow> Some (Inl (Exception e), pre @ [VideoFetch vurl])
      | Returned (st, videoSize, mime) \<Rightarrow>
          if \<not> http_ok st then Some (Inl (VideoFetchFailed st), pre @ [VideoFetch vurl])
          else
            (let calls = pre @ [VideoFetch vurl, UploadInit tok videoSize ''video/mp4'' (take 100 ttl)]
             in case init_reply env of
                  Threw e \<Rightarrow> Some (Inl (Exception e), calls)
                | Returned (ist, loc) \<Rightarrow>
                    if \<not> http_ok ist then Some (Inl (InitFailed ist), calls)
                    else if \<not> truthy loc then Some (Inl NoUploadUrl, calls)
                    else
                      (case upload_loop_edge (chunk_replies env) videoSize (Num 0) 0 calls of
                         None \<Rightarrow> None
                       | Some (Completed b, sent) \<Rightarrow> Some (video_result ttl b, sent)
                       | Some (Exhausted, sent) \<Rightarrow> Some (Inl NoVideoId, sent)
                       | Some (Raised f, sent) \<Rightarrow> Some (Inl f, sent))))"

text \<open>The \<open>try\<close> block of the function: what it returns or throws, and the calls made.\<close>

definition youtube_upload_try :: "server_env \<Rightarrow> request \<Rightarrow> ((failure + payload) \<times> call list) option" where
  "youtube_upload_try env req =
     (case req_json req of
        Threw e \<Rightarrow> Some (Inl (Exception e), [])
      | Returned j \<Rightarrow>
          if \<not> truthy (j_userId j) \<or> \<not> truthy (j_videoUrl j) \<or> \<not> truthy (j_title j) then
            Some (Inl MissingFields, [])
          else
            (let sel = ConnectionSelect (the (j_userId j)) ''youtube'' in
             case connection_row env of
               None \<Rightarrow> Some (Inl NotConnected, [sel])
             | Some c \<Rightarrow>
                 (case token_check_upload env c of
                    (Inl f, cs) \<Rightarrow> Some (Inl f, sel # cs)
                  | (Inr tok, cs) \<Rightarrow>
                      transfer_upload env (the (j_videoUrl j)) (the (j_title j)) tok (sel # cs))))"

text \<open>
  The function: the preflight answer, the answer of the \<open>try\<close> block, and the answer of
  its \<open>catch\<close>, which has status 400.
\<close>

definition youtube_upload_handler :: "server_env \<Rightarrow> request \<Rightarrow> (response \<times> call list) option" where
  "youtube_upload_handler env req =
     (if req_method req = ''OPTIONS'' then Some (new_Response NoBody None, [])
      else
        (case youtube_upload_try env req of
           None \<Rightarrow> None
         | Some (Inl f, calls) \<Rightarrow> Some (new_Response (Failure f) (Some 400), calls)
         | Some (Inr p, calls) \<Rightarrow> Some (new_Response (Success p) None, calls)))"

section \<open>The youtube-oauth function\<close>

text \<open>
  The token check of the \<open>upload_video\<close> action.  Its log line calls
  \<open>expiryDate.toISOString()\<close>, which throws a \<open>RangeError\<close> when the date of the row
  cannot be parsed.  Here a missing refresh token and a refresh that fails are both
  thrown; the handler around the \<open>fetch\<close> wraps what it catches.
\<close>

definition token_check_oauth :: "server_env \<Rightarrow> SocialConnection \<Rightarrow> (failure + string) \<times> call list" where
  "token_check_oauth env c =
     (case token_expires_at c of
        None \<Rightarrow> (Inr (access_token c), [])
      | Some d \<Rightarrow>
          if d = InvalidDate then (Inl (Exception ''Invalid time value''), [])
          else if expires_within d (clock env) then
            (case refresh_token c of
               None \<Rightarrow> (Inl NoRefreshToken, [])
             | Some rt \<Rightarrow>
                 if rt = [] then (Inl NoRefreshToken, [])
                 else
                   (case token_reply env of
                      RefreshThrows e \<Rightarrow> (Inl (RefreshError (Exception e)), [TokenRefresh rt])
                    | RefreshNotOk st \<Rightarrow> (Inl (RefreshError (RefreshRejected st)), [TokenRefresh rt])
                    | RefreshOk tok expires_in \<Rightarrow>
                        (Inr tok,
                         [TokenRefresh rt,
                          ConnectionUpdate (conn_id c) tok
                            (Instant (clock_refresh env + expires_in * 1000))])))
          else (Inr (access_token c), []))"

text \<open>
  From the download of the video to the end of the loop; the whole block sits in a
  \<open>try\<close> whose handler wraps the error.
\<close>

definition transfer_oauth ::
  "server_env \<Rightarrow> string \<Rightarrow> string \<Rightarrow> string \<Rightarrow> call list \<Rightarrow> ((failure + payload) \<times> call list) option" where
  "transfer_oauth env vurl ttl tok pre =
     (case video_reply env of
        Threw e \<Rightarrow> Some (Inl (VideoProcessingFailed (Exception e)), pre @ [VideoFetch vurl])
      | Returned (st, videoSize, mime) \<Rightarrow>
          if \<not> http_ok st then
            Some (Inl (VideoProcessingFailed (VideoFetchFailed st)), pre @ [VideoFetch vurl])
          else if videoSize = 0 then
            Some (Inl (VideoProcessingFailed EmptyVideo), pre @ [VideoFetch vurl])
          else if videoSize > 128 * 1024 * 1024 then
            Some (Inl (VideoProcessingFailed (VideoTooLarge videoSize)), pre @ [VideoFetch vurl])
          else
            (let uploadMimeType = (if mime = [] then ''video/mp4'' else mime);
                 calls = pre @ [VideoFetch vurl, UploadInit tok videoSize uploadMimeType (take 100 ttl)]
             in case init_reply env of
                  Threw e \<Rightarrow> Some (Inl (VideoProcessingFailed (Exception e)), calls)
                | Returned (ist, loc) \<Rightarrow>
                    if \<not> http_ok ist then Some (Inl (VideoProcessingFailed (InitFailed ist)), calls)
                    else if \<not> truthy loc then Some (Inl (VideoProcessingFailed NoUploadUrl), calls)
                    else
                      (case upload_loop_oauth (chunk_replies env) videoSize (Num 0) 0 calls of
                         None \<Rightarrow> None
                       | Some (Completed b, sent) \<Rightarrow>
                           (case video_result ttl b of
                              Inl f \<Rightarrow> Some (Inl (VideoProcessingFailed f), sent)
                            | Inr p \<Rightarrow> Some (Inr p, sent))
                       | Some (Exhausted, sent) \<Rightarrow> Some (Inl (VideoProcessingFailed NoVideoId), sent)
                       | Some (Raised f, sent) \<Rightarrow> Some (Inl (VideoProcessingFailed f), sent))))"

text \<open>
  The \<open>upload_video\<close> action, from the check of the required fields on; \<open>j\<close> is the
  body as the action reads it.  The log line before the check calls
  \<open>videoUrl.substring\<close> and throws when \<open>videoUrl\<close> is absent.
\<close>

definition upload_video :: "server_env \<Rightarrow> json_request \<Rightarrow> ((failure + payload) \<times> call list) option" where
  "upload_video env j =
     (if j_videoUrl j = None then
        Some (Inl (Exception ''Cannot read properties of undefined''), [])
      else if \<not> truthy (j_userId j) \<or> \<not> truthy (j_videoUrl j) \<or> \<not> truthy (j_title j) then
        Some (Inl MissingFields, [])
      else
        (let sel = ConnectionSelect (the (j_userId j)) ''youtube'' in
         case connection_row env of
           None \<Rightarrow> Some (Inl NotConnected, [sel])
         | Some c \<Rightarrow>
             (case token_check_oauth env c of
                (Inl f, cs) \<Rightarrow> Some (Inl f, sel # cs)
              | (Inr tok, cs) \<Rightarrow>
                  transfer_oauth env (the (j_videoUrl j)) (the (j_title j)) tok (sel # cs))))"

text \<open>
  What the other actions read from outside: the two environment variables with the
  Google credentials and the redirect URI, what a second \<open>await req.json()\<close> gives, and
  the replies of the token endpoint (status, \<open>access_token\<close>, \<open>refresh_token\<close>,
  \<open>expires_in\<close>), of the channel list (status and the ids and titles of the items) and
  of the database.  \<open>node_env\<close> is what \<open>process.env.NODE_ENV\<close> evaluates to in the
  \<open>catch\<close> of the function; the expression throws in a runtime without a global
  \<open>process\<close>.
\<close>

record oauth_env = server_env +
  google_client_id :: "string option"
  google_client_secret :: "string option"
  redirect_uri :: string
  body_again :: "json_request outcome"
  exchange_reply :: "(nat \<times> string \<times> string option \<times> int option) outcome"
  channel_reply :: "(nat \<times> (string \<times> string) list) outcome"
  upsert_error :: bool
  update_error :: bool
  delete_error :: bool
  check_row :: "SocialConnection option"
  node_env :: "string option outcome"

text \<open>\<open>expires_in ? Date.now() + expires_in * 1000 : Date.now() + 3600 * 1000\<close>.\<close>

definition expiry_from :: "int \<Rightarrow> int option \<Rightarrow> jsdate" where
  "expiry_from now expires_in =
     (case expires_in of
        None \<Rightarrow> Instant (now + 3600 * 1000)
      | Some s \<Rightarrow> if s = 0 then Instant (now + 3600 * 1000) else Instant (now + s * 1000))"

definition exchange_code :: "oauth_env \<Rightarrow> json_request \<Rightarrow> string \<Rightarrow> (failure + payload) \<times> call list" where
  "exchange_code env j actualUserId =
     (let c1 = [TokenExchange (case j_code j of None \<Rightarrow> ''undefined'' | Some c \<Rightarrow> c)] in
      case exchange_reply env of
        Threw e \<Rightarrow> (Inl (Exception e), c1)
      | Returned (st, tok, rt, expires_in) \<Rightarrow>
          if \<not> http_ok st then (Inl (TokenExchangeFailed st), c1)
          else
            (let c2 = c1 @ [ChannelFetch tok] in
             case channel_reply env of
               Threw e \<Rightarrow> (Inl (Exception e), c2)
             | Returned (cst, items) \<Rightarrow>
                 if \<not> http_ok cst then (Inl ChannelFetchFailed, c2)
                 else
                   (case items of
                      [] \<Rightarrow> (Inl NoChannel, c2)
                    | (cid, ctitle) # _ \<Rightarrow>
                        (let c3 = c2 @ [ConnectionUpsert actualUserId tok cid] in
                         if upsert_error env then (Inl SaveFailed, c3)
                         else (Inr (Connected ctitle cid), c3)))))"

definition refresh_token_action :: "oauth_env \<Rightarrow> string \<Rightarrow> (failure + payload) \<times> call list" where
  "refresh_token_action env actualUserId =
     (case body_again env of
        Threw e \<Rightarrow> (Inl (Exception e), [])
      | Returned j \<Rightarrow>
          if \<not> truthy (j_refresh_token j) then (Inl RefreshTokenRequired, [])
          else
            (let c1 = [TokenRefresh (the (j_refresh_token j))] in
             case exchange_reply env of
               Threw e \<Rightarrow> (Inl (Exception e), c1)
             | Returned (st, tok, rt, expires_in) \<Rightarrow>
                 if \<not> http_ok st then (Inl (TokenRefreshFailed st), c1)
                 else
                   (let expiresAt = expiry_from (clock_refresh env) expires_in;
                        c2 = c1 @ [ConnectionUpdate actualUserId tok expiresAt]
                    in if update_error env then (Inl UpdateFailed, c2)
                       else (Inr (Refreshed tok expiresAt), c2))))"

text \<open>
  The \<open>try\<close> block of the function.  \<open>upload_video\<close> and \<open>refresh_token\<close> read the body
  a second time.
\<close>

definition youtube_oauth_try :: "oauth_env \<Rightarrow> request \<Rightarrow> ((failure + payload) \<times> call list) option" where
  "youtube_oauth_try env req =
     (case req_json req of
        Threw e \<Rightarrow> Some (Inl (Exception e), [])
      | Returned j \<Rightarrow>
          if \<not> truthy (google_client_id env) \<or> \<not> truthy (google_client_secret env) then
            Some (Inl CredentialsNotConfigured, [])
          else
            (let actualUserId = or_default (j_userId j) (or_default (j_state j) ''default_user'') in
             if j_action j = Some ''get_auth_url'' then
               Some (Inr (AuthUrl (the (google_client_id env)) (redirect_uri env)
                       (or_default (j_state j) ''default_state'')), [])
             else if j_action j = Some ''exchange_code'' then
               Some (exchange_code env j actualUserId)
             else if j_action j = Some ''refresh_token'' then
               Some (refresh_token_action env actualUserId)
             else if j_action j = Some ''disconnect'' then
               (if delete_error env then Some (Inl DisconnectFailed, [ConnectionDelete actualUserId])
                else Some (Inr Disconnected, [ConnectionDelete actualUserId]))
             else if j_action j = Some ''check_connection'' then
               Some (Inr (ConnectionStatus (check_row env \<noteq> None) (check_row env)),
                     [ConnectionSelect actualUserId ''youtube''])
             else if j_action j = Some ''upload_video'' then
               (case body_again env of
                  Threw e \<Rightarrow> Some (Inl (Exception e), [])
                | Returned j2 \<Rightarrow> upload_video (server_env.truncate env) j2)
             else Some (Inl InvalidAction, [])))"

text \<open>
  The function.  The preflight is answered with status 204.  The \<open>catch\<close> answers with
  status 200 and \<open>success: false\<close>; building this answer reads
  \<open>process.env.NODE_ENV\<close>, and when that throws the handler throws and returns no
  response of its own.
\<close>

definition youtube_oauth_handler :: "oauth_env \<Rightarrow> request \<Rightarrow> (response outcome \<times> call list) option" where
  "youtube_oauth_handler env req =
     (if req_method req = ''OPTIONS'' then Some (Returned (new_Response NoBody (Some 204)), [])
      else
        (case youtube_oauth_try env req of
           None \<Rightarrow> None
         | Some (Inl f, calls) \<Rightarrow>
             (case node_env env of
                Threw e \<Rightarrow> Some (Threw e, calls)
              | Returned v \<Rightarrow> Some (Returned (new_Response (Failure f) (Some 200)), calls))
         | Some (Inr p, calls) \<Rightarrow> Some (Returned (new_Response (Success p) None), calls)))"

section \<open>The instagram-oauth function (supabase/functions/instagram-oauth/index.ts)\<close>

text \<open>
  What the function reads from outside: the environment variables with the Instagram
  credentials, the redirect URI and the webhook token, and the replies of the token
  endpoint (status and \<open>access_token\<close>), of the exchange for a long-lived token
  (status, \<open>access_token\<close> and \<open>expires_in\<close>), of the profile (status, \<open>id\<close> and
  \<open>username\<close>) and of the database.
\<close>

record instagram_env =
  instagram_client_id :: "string option"
  instagram_client_secret :: "string option"
  instagram_redirect_uri :: string
  webhook_verify_token :: "string option"
  ig_token_reply :: "(nat \<times> string) outcome"
  ig_long_lived_reply :: "(nat \<times> string \<times> int option) outcome"
  ig_profile_reply :: "(nat \<times> string \<times> string) outcome"
  ig_upsert_error :: bool
  ig_delete_error :: bool
  ig_check_row :: "SocialConnection option"

text \<open>The webhook verification, which answers a GET request before the \<open>try\<close> block.\<close>

definition verify_webhook :: "instagram_env \<Rightarrow> request \<Rightarrow> response" where
  "verify_webhook env req =
     (if map_of (req_params req) ''hub.mode'' = Some ''subscribe'' \<and>
         map_of (req_params req) ''hub.verify_token'' =
           Some (or_default (webhook_verify_token env) ''instagram_webhook_token'')
      then new_Response
             (case map_of (req_params req) ''hub.challenge'' of
                None \<Rightarrow> NoBody | Some c \<Rightarrow> Text c) (Some 200)
      else new_Response (Text ''Forbidden'') (Some 403))"

definition instagram_exchange_code ::
  "instagram_env \<Rightarrow> json_request \<Rightarrow> (failure + payload) \<times> call list" where
  "instagram_exchange_code env j =
     (let c1 = [TokenExchange (case j_code j of None \<Rightarrow> ''undefined'' | Some c \<Rightarrow> c)] in
      case ig_token_reply env of
        Threw e \<Rightarrow> (Inl (Exception e), c1)
      | Returned (st, tok) \<Rightarrow>
          if \<not> http_ok st then (Inl (TokenExchangeFailed st), c1)
          else
            (let c2 = c1 @ [LongLivedTokenExchange tok] in
             case ig_long_lived_reply env of
               Threw e \<Rightarrow> (Inl (Exception e), c2)
             | Returned (lst, ltok, expires_in) \<Rightarrow>
                 (let tok' = (if http_ok lst then ltok else tok);
                      c3 = c2 @ [ProfileFetch tok']
                  in case ig_profile_reply env of
                       Threw e \<Rightarrow> (Inl (Exception e), c3)
                     | Returned (pst, pid, username) \<Rightarrow>
                         if \<not> http_ok pst then (Inl ProfileFetchFailed, c3)
                         else
                           (let c4 = c3 @ [ConnectionUpsert
                                  (or_default (j_state j) ''default_user'') tok' pid]
                            in if ig_upsert_error env then (Inl SaveFailed, c4)
                               else (Inr (Connected username pid), c4)))))"

text \<open>The \<open>try\<close> block of the function.\<close>

definition instagram_oauth_try :: "instagram_env \<Rightarrow> request \<Rightarrow> (failure + payload) \<times> call list" where
  "instagram_oauth_try env req =
     (case req_json req of
        Threw e \<Rightarrow> (Inl (Exception e), [])
      | Returned j \<Rightarrow>
          if \<not> truthy (instagram_client_id env) \<or> \<not> truthy (instagram_client_secret env) then
            (Inl CredentialsNotConfigured, [])
          else if j_action j = Some ''get_auth_url'' then
            (Inr (AuthUrl (the (instagram_client_id env)) (instagram_redirect_uri env)
                    (or_default (j_state j) ''default_state'')), [])
          else if j_action j = Some ''exchange_code'' then instagram_exchange_code env j
          else if j_action j = Some ''disconnect'' then
            (if ig_delete_error env then
               (Inl DisconnectFailed, [ConnectionDelete (or_default (j_state j) ''default_user'')])
             else (Inr Disconnected, [ConnectionDelete (or_default (j_state j) ''default_user'')]))
          else if j_action j = Some ''check_connection'' then
            (Inr (ConnectionStatus (ig_check_row env \<noteq> None) (ig_check_row env)),
             [ConnectionSelect (or_default (j_state j) ''default_user'') ''instagram''])
          else (Inl InvalidAction, []))"

text \<open>
  The function: the preflight answer, the webhook verification, the answer of the \<open>try\<close>
  block, and the answer of its \<open>catch\<close>, which has status 400.
\<close>

definition instagram_oauth_handler :: "instagram_env \<Rightarrow> request \<Rightarrow> response \<times> call list" where
  "instagram_oauth_handler env req =
     (if req_method req = ''OPTIONS'' then (new_Response NoBody None, [])
      else if req_method req = ''GET'' then (verify_webhook env req, [])
      else
        (case instagram_oauth_try env req of
           (Inl f, calls) \<Rightarrow> (new_Response (Failure f) (Some 400), calls)
         | (Inr p, calls) \<Rightarrow> (new_Response (Success p) None, calls)))"

section \<open>Runs of the chunked upload\<close>

text \<open>
  The spans of a payload of \<open>S\<close> bytes cut into chunks of \<open>chunkSize\<close> bytes: their
  number, and the first byte and the end (one past the last byte) of span \<open>i\<close>.
\<close>

definition chunk_count :: "nat \<Rightarrow> nat" where
  "chunk_count S = (S + chunkSize - 1) div chunkSize"

definition span_first :: "nat \<Rightarrow> nat" where
  "span_first i = i * chunkSize"

definition span_stop :: "nat \<Rightarrow> nat \<Rightarrow> nat" where
  "span_stop S i = min ((i + 1) * chunkSize) S"

text \<open>The PUT of span \<open>i\<close>, with the range written first byte to last byte.\<close>

definition clean_put :: "nat \<Rightarrow> nat \<Rightarrow> call" where
  "clean_put S i =
     ChunkPut (span_stop S i - span_first i)
       (''bytes '' @ dec_nat (span_first i) @ ''-'' @ dec_nat (span_stop S i - 1) @ ''/'' @ dec_nat S)
       (span_first i) (span_stop S i)"

text \<open>
  A clean run: the PUT of every span but the last is answered with 308 and asks for no
  retransmission (no \<open>Range\<close> header, or one that acknowledges the last byte of the span),
  and the PUT of the last span is answered with 200 or 201.
\<close>

fun acknowledges :: "chunk_reply \<Rightarrow> nat \<Rightarrow> bool" where
  "acknowledges (PutResp st hdr b) stop =
     (st = 308 \<and> (hdr = None \<or> hdr = Some (''bytes=0-'' @ dec_nat (stop - 1))))"
| "acknowledges (PutThrows e) stop = False"

fun is_success :: "chunk_reply \<Rightarrow> bool" where
  "is_success (PutResp st hdr b) = (st = 200 \<or> st = 201)"
| "is_success (PutThrows e) = False"

definition clean_run :: "(nat \<Rightarrow> chunk_reply) \<Rightarrow> nat \<Rightarrow> bool" where
  "clean_run reply S =
     (\<forall>i < chunk_count S.
        if Suc i = chunk_count S then is_success (reply i)
        else acknowledges (reply i) (span_stop S i))"

text \<open>
  The PUT that starts at byte \<open>first\<close> of a payload of \<open>len\<close> bytes: it carries the
  bytes from \<open>first\<close> up to, not including, \<open>first + chunkSize\<close> or \<open>len\<close> if that is
  smaller, and its range names the first and the last of them.
\<close>

definition put_from :: "nat \<Rightarrow> nat \<Rightarrow> call" where
  "put_from len first =
     ChunkPut (min (first + chunkSize) len - min first len)
       (''bytes '' @ dec_nat first @ ''-'' @ js_int_string (int (min (first + chunkSize) len) - 1) @
        ''/'' @ dec_nat len)
       (min first len) (min (first + chunkSize) len)"

text \<open>A reply with the continue status 308.\<close>

fun is_continue :: "chunk_reply \<Rightarrow> bool" where
  "is_continue (PutResp st hdr b) = (st = 308)"
| "is_continue (PutThrows e) = False"

text \<open>
  Five platforms: one that acknowledges the first span with a \<open>Range\<close> header, the
  second without one, and then reports success; one that answers 308 with the range of
  Scenario C first, 308 without a range next and 200 afterwards; one that acknowledges
  only the first MiB of the first chunk and answers 200 afterwards; one that answers
  every PUT with 308 and the same range; and one that fails the second PUT.
\<close>

definition clean_replies :: "nat \<Rightarrow> chunk_reply" where
  "clean_replies i =
     (if i = 0 then PutResp 308 (Some ''bytes=0-5242879'') JsonNull
      else if i = 1 then PutResp 308 None JsonNull
      else PutResp 201 None (JsonVideo (Some ''dQw4'') None))"

definition scenarioC_replies :: "nat \<Rightarrow> chunk_reply" where
  "scenarioC_replies i =
     (if i = 0 then PutResp 308 (Some ''bytes=0-5242879'') JsonNull
      else if i = 1 then PutResp 308 None JsonNull
      else PutResp 200 None (JsonVideo (Some ''abc123'') None))"

definition retransmit_replies :: "nat \<Rightarrow> chunk_reply" where
  "retransmit_replies i =
     (if i = 0 then PutResp 308 (Some ''bytes=0-1048575'') JsonNull
      else PutResp 200 None (JsonVideo (Some ''abc123'') None))"

definition stuck_reply :: "nat \<Rightarrow> chunk_reply" where
  "stuck_reply n = PutResp 308 (Some ''bytes=0-0'') JsonNull"

definition failing_replies :: "nat \<Rightarrow> chunk_reply" where
  "failing_replies i = (if i = 0 then PutResp 308 None JsonNull else PutResp 503 None (NotJson ''Service Unavailable''))"

section \<open>Concrete scenarios of the edge functions\<close>

text \<open>
  Three connection rows read at time 1000000 (in milliseconds): one that expired a
  second ago and has no refresh token, one that expired a second ago and has a refresh
  token that the token endpoint rejects, and one that expires in ten minutes.
\<close>

definition stale_row :: SocialConnection where
  "stale_row =
     \<lparr>conn_id = ''row-1'', platform = ''youtube'', access_token = ''ya29.stale'',
      refresh_token = None, token_expires_at = Some (Instant 999000), is_active = True\<rparr>"

definition rejected_row :: SocialConnection where
  "rejected_row =
     \<lparr>conn_id = ''row-2'', platform = ''youtube'', access_token = ''ya29.stale'',
      refresh_token = Some ''1//revoked'', token_expires_at = Some (Instant 999000),
      is_active = True\<rparr>"

definition fresh_row :: SocialConnection where
  "fresh_row =
     \<lparr>conn_id = ''row-3'', platform = ''youtube'', access_token = ''ya29.fresh'',
      refresh_token = Some ''1//refresh'', token_expires_at = Some (Instant 1600000),
      is_active = True\<rparr>"

text \<open>
  A platform where everything works: the token endpoint apart, which answers 400; the
  video has three bytes and the first PUT is answered with the video resource.
\<close>

definition upload_env :: "SocialConnection \<Rightarrow> server_env" where
  "upload_env row =
     \<lparr>clock = 1000000, clock_refresh = 1000000, connection_row = Some row,
      token_reply = RefreshNotOk 400,
      video_reply = Returned (200, 3, ''video/mp4''),
      init_reply = Returned (200, Some ''https://upload.example/session''),
      chunk_replies = (\<lambda>n. PutResp 200 None (JsonVideo (Some ''abc123'') None))\<rparr>"

text \<open>Requests: an upload, the CORS preflight, and a POST with an unknown action.\<close>

definition empty_json :: json_request where
  "empty_json =
     \<lparr>j_action = None, j_code = None, j_state = None, j_userId = None, j_refresh_token = None,
      j_videoUrl = None, j_title = None, j_description = None, j_tags = None,
      j_privacyStatus = None\<rparr>"

definition upload_post :: request where
  "upload_post =
     \<lparr>req_method = ''POST'', req_params = [],
      req_json = Returned (empty_json\<lparr>j_action := Some ''upload_video'', j_userId := Some ''u1'',
        j_videoUrl := Some ''https://cdn.example/clip.mp4'', j_title := Some ''Clip''\<rparr>)\<rparr>"

definition preflight :: request where
  "preflight =
     \<lparr>req_method = ''OPTIONS'', req_params = [],
      req_json = Threw ''Unexpected end of JSON input''\<rparr>"

definition unknown_action_post :: request where
  "unknown_action_post =
     \<lparr>req_method = ''POST'', req_params = [],
      req_json = Returned (empty_json\<lparr>j_action := Some ''status''\<rparr>)\<rparr>"

text \<open>
  An environment of youtube-oauth with the Google credentials configured, and one of
  instagram-oauth with the Instagram credentials; no request below reaches their
  services.
\<close>

definition example_oauth_env :: oauth_env where
  "example_oauth_env =
     \<lparr>clock = 1000000, clock_refresh = 1000000, connection_row = None,
      token_reply = RefreshNotOk 400,
      video_reply = Threw ''unreachable'',
      init_reply = Threw ''unreachable'',
      chunk_replies = (\<lambda>n. PutThrows ''unreachable''),
      google_client_id = Some ''client-id'', google_client_secret = Some ''client-secret'',
      redirect_uri = ''https://project.example/functions/v1/youtube-oauth'',
      body_again = Threw ''Body already consumed'',
      exchange_reply = Threw ''unreachable'', channel_reply = Threw ''unreachable'',
      upsert_error = False, update_error = False, delete_error = False, check_row = None,
      node_env = Returned None\<rparr>"

definition example_instagram_env :: instagram_env where
  "example_instagram_env =
     \<lparr>instagram_client_id = Some ''ig-client'', instagram_client_secret = Some ''ig-secret'',
      instagram_redirect_uri = ''https://project.example/functions/v1/instagram-oauth'',
      webhook_verify_token = None,
      ig_token_reply = Threw ''unreachable'', ig_long_lived_reply = Threw ''unreachable'',
      ig_profile_reply = Threw ''unreachable'',
      ig_upsert_error = False, ig_delete_error = False, ig_check_row = None\<rparr>"

text \<open>The calls that move the video: its download, the upload initiation, a chunk PUT.\<close>

fun is_upload_call :: "call \<Rightarrow> bool" where
  "is_upload_call (VideoFetch _) = True"
| "is_upload_call (UploadInit _ _ _ _) = True"
| "is_upload_call (ChunkPut _ _ _ _) = True"
| "is_upload_call _ = False"

section \<open>Concrete scenarios of the upload hook\<close>

text \<open>
  A YouTube connection whose token expires in one minute and which has a refresh token,
  a YouTube connection whose token never expires, and the three connections that
  \<open>addTestConnection\<close> of the upload modal creates.
\<close>

definition expiring_connection :: SocialConnection where
  "expiring_connection =
     \<lparr>conn_id = ''c1'', platform = ''youtube'', access_token = ''ya29.old'',
      refresh_token = Some ''1//refresh'', token_expires_at = Some (Instant 1060000),
      is_active = True\<rparr>"

definition lasting_connection :: SocialConnection where
  "lasting_connection =
     \<lparr>conn_id = ''c2'', platform = ''youtube'', access_token = ''ya29.lasting'',
      refresh_token = None, token_expires_at = None, is_active = True\<rparr>"

definition demo_youtube :: SocialConnection where
  "demo_youtube =
     \<lparr>conn_id = ''youtube-local'', platform = ''youtube'',
      access_token = ''demo_access_token_youtube'', refresh_token = None,
      token_expires_at = Some (Instant 4600000), is_active = True\<rparr>"

definition demo_instagram :: SocialConnection where
  "demo_instagram =
     \<lparr>conn_id = ''instagram-local'', platform = ''instagram'',
      access_token = ''demo_access_token_instagram'', refresh_token = None,
      token_expires_at = None, is_active = True\<rparr>"

definition demo_facebook :: SocialConnection where
  "demo_facebook =
     \<lparr>conn_id = ''facebook-local'', platform = ''facebook'',
      access_token = ''demo_access_token_facebook'', refresh_token = None,
      token_expires_at = None, is_active = True\<rparr>"

text \<open>
  A user with the expiring YouTube connection only; the token endpoint answers the
  refresh with a new token.
\<close>

definition example_env :: client_env where
  "example_env =
     \<lparr>now_check = 1000000, now_refresh = 1000000, now_final = 1000000, now_mock = 1000000,
      refresh_response = RefreshOk ''ya29.new'' 3600,
      get_user = Returned None, db_update_throws = False,
      invoke_response = InvokeError ''Function not reachable'',
      connections = [expiring_connection]\<rparr>"

definition example_image :: AssetToUpload where
  "example_image =
     \<lparr>asset_id = ''a1'', title = ''Poster'', asset_type = ''image'',
      asset_url = ''https://cdn.example/poster.png'', description = None, tags = None\<rparr>"

section \<open>Compatibility predicate of the upload modal\<close>

text \<open>\<open>isPlatformCompatible\<close> of SocialMediaUploadModal, closed over the modal's asset.\<close>

definition isPlatformCompatible :: "AssetToUpload \<Rightarrow> string \<Rightarrow> bool" where
  "isPlatformCompatible asset p =
     (if asset_type asset = ''video'' then p = ''youtube'' \<or> p = ''facebook''
      else if asset_type asset = ''image'' then p = ''instagram'' \<or> p = ''facebook''
      else if asset_type asset = ''content'' then
        p = ''twitter'' \<or> p = ''linkedin'' \<or> p = ''facebook''
      else False)"

text \<open>
  The filter of \<open>loadConnectedPlatforms\<close> that pre-selects platforms when the modal opens.
\<close>

definition autoSelectFilter :: "AssetToUpload \<Rightarrow> SocialConnection \<Rightarrow> bool" where
  "autoSelectFilter asset p =
     (if asset_type asset = ''video'' then platform p = ''youtube'' \<or> platform p = ''facebook''
      else if asset_type asset = ''image'' then
        platform p = ''instagram'' \<or> platform p = ''facebook''
      else False)"

text \<open>The compatibility table of the specification, as a set of (asset type, platform).\<close>

definition compatibility_table :: "(string \<times> string) set" where
  "compatibility_table =
     {(''video'', ''youtube''), (''video'', ''facebook''),
      (''image'', ''instagram''), (''image'', ''facebook''),
      (''content'', ''twitter''), (''content'', ''linkedin''), (''content'', ''facebook'')}"

section \<open>Compatibility\<close>

text \<open>
  Claim C7.  For every asset type and every platform, \<open>isPlatformCompatible\<close> accepts the
  pair exactly when it is in the table: video with youtube or facebook, image with
  instagram or facebook, content with twitter, linkedin or facebook; every other pairing
  is rejected.
\<close>

theorem isPlatformCompatible_iff_table:
  "isPlatformCompatible asset p \<longleftrightarrow> (asset_type asset, p) \<in> compatibility_table"
  by (auto simp: isPlatformCompatible_def compatibility_table_def)

text \<open>
  The pre-selection filter agrees with the table on video and image assets and selects
  nothing for any other asset type.
\<close>

lemma autoSelectFilter_table:
  "autoSelectFilter asset c \<longleftrightarrow>
     (asset_type asset, platform c) \<in> compatibility_table \<and> asset_type asset \<noteq> ''content''"
  by (auto simp: autoSelectFilter_def compatibility_table_def)

section \<open>The fan-out\<close>






section \<open>Incompatible pairs\<close>

lemma refreshIfExpiring_no_invoke: "FunctionsInvoke b \<notin> set (snd (refreshIfExpiring env c))"
  by (auto simp: refreshIfExpiring_def storeRefreshedToken_def Let_def
      split: option.splits refresh_reply.splits outcome.splits)

lemma refreshIfExpiring_not_due:
  "token_expires_at c = None \<or>
   (\<exists>t. token_expires_at c = Some (Instant t) \<and> 300000 < t - now_check env)
   \<Longrightarrow> refreshIfExpiring env c = (c, [])"
  by (auto simp: refreshIfExpiring_def expires_within_def)

text \<open>
  Claim C8, as stated, fails.  An image sent to YouTube is outside the table, yet with a
  token that expires within five minutes the job first posts the refresh token to the
  token endpoint and writes the new token to the connection row, and only then rejects
  the asset type.
\<close>

theorem incompatible_pair_refreshes_token_first:
  "(asset_type example_image, platform expiring_connection) \<notin> compatibility_table \<and>
   dispatch example_env example_image expiring_connection =
     (\<lparr>success = False, res_platform = ''youtube'',
       message = ''YouTube only supports video uploads.'',
       url = None, error = Some ''Unsupported asset type''\<rparr>,
      [RefreshPost ''1//refresh'', AuthGetUser,
       DbTokenUpdate ''default_user'' ''ya29.new'' (Instant 4600000)]) \<and>
   is_network_call (RefreshPost ''1//refresh'')"
  by (simp add: example_env_def example_image_def expiring_connection_def
      compatibility_table_def dispatch_def uploadToYouTube_def isTestConnection_youtube_def
      refreshIfExpiring_def expires_within_def storeRefreshedToken_def or_default_def
      date_le_def Let_def)

text \<open>
  Claim C8, amended.  For a pair outside the table and a connection that is not a test
  connection, the job fails and never sends the upload request.  Instagram, Facebook
  and the platforms without an upload function do nothing at all.  YouTube runs its
  token check before it looks at the asset type, so the refresh of the token (and the
  write of the new token) may precede the failure, which is either the unsupported
  asset type or the expired token; when the connection has no expiry date or one more
  than five minutes ahead, nothing is done before the failure.
\<close>

theorem incompatible_pair_never_uploaded:
  assumes out: "(asset_type asset, platform c) \<notin> compatibility_table"
    and nt: "\<not> isTestConnection_youtube c" "access_token c \<noteq> ''demo_access_token_instagram''"
       "access_token c \<noteq> ''demo_access_token_facebook''"
  shows "\<not> success (fst (dispatch env asset c))
     \<and> (\<forall>b. FunctionsInvoke b \<notin> set (snd (dispatch env asset c)))
     \<and> (platform c \<noteq> ''youtube'' \<longrightarrow> snd (dispatch env asset c) = [])
     \<and> (platform c = ''youtube'' \<longrightarrow>
          snd (dispatch env asset c) = snd (refreshIfExpiring env c) \<and>
          (error (fst (dispatch env asset c)) = Some ''Unsupported asset type'' \<or>
           error (fst (dispatch env asset c)) = Some ''Token expired''))
     \<and> (token_expires_at c = None \<or>
          (\<exists>t. token_expires_at c = Some (Instant t) \<and> 300000 < t - now_check env)
         \<longrightarrow> snd (dispatch env asset c) = [])"
proof (cases "platform c = ''youtube''")
  case True
  with out have nv: "asset_type asset \<noteq> ''video''"
    by (auto simp: compatibility_table_def)
  obtain c' effs where r: "refreshIfExpiring env c = (c', effs)"
    by (cases "refreshIfExpiring env c")
  have d: "dispatch env asset c =
     (if (case token_expires_at c' of None \<Rightarrow> False | Some d \<Rightarrow> date_le d (now_final env)) then
           (\<lparr>success = False, res_platform = ''youtube'',
             message = ''YouTube token has expired. Please reconnect your account.'',
             url = None, error = Some ''Token expired''\<rparr>, effs)
      else (\<lparr>success = False, res_platform = ''youtube'',
             message = ''YouTube only supports video uploads.'',
             url = None, error = Some ''Unsupported asset type''\<rparr>, effs))"
    using True nv nt(1) r by (simp add: dispatch_def uploadToYouTube_def)
  have e: "snd (dispatch env asset c) = effs" by (simp add: d)
  have "\<forall>b. FunctionsInvoke b \<notin> set effs"
    using refreshIfExpiring_no_invoke[of _ env c] r by simp
  moreover have "token_expires_at c = None \<or>
          (\<exists>t. token_expires_at c = Some (Instant t) \<and> 300000 < t - now_check env) \<longrightarrow> effs = []"
    using refreshIfExpiring_not_due[of c env] r by auto
  ultimately show ?thesis using True e r by (auto simp: d)
next
  case False
  with nt show ?thesis
    by (simp add: dispatch_def uploadToInstagram_def uploadToFacebook_def)
qed

theorem incompatible_pair_never_uploaded_witness:
  "(asset_type example_image, platform lasting_connection) \<notin> compatibility_table \<and>
   \<not> isTestConnection_youtube lasting_connection \<and>
   access_token lasting_connection \<noteq> ''demo_access_token_instagram'' \<and>
   access_token lasting_connection \<noteq> ''demo_access_token_facebook'' \<and>
   platform lasting_connection = ''youtube'' \<and>
   token_expires_at lasting_connection = None \<and>
   \<not> success (fst (dispatch example_env example_image lasting_connection)) \<and>
   snd (dispatch example_env example_image lasting_connection) = [] \<and>
   error (fst (dispatch example_env example_image lasting_connection)) =
     Some ''Unsupported asset type''"
proof -
  have h: "(asset_type example_image, platform lasting_connection) \<notin> compatibility_table"
    "\<not> isTestConnection_youtube lasting_connection"
    "access_token lasting_connection \<noteq> ''demo_access_token_instagram''"
    "access_token lasting_connection \<noteq> ''demo_access_token_facebook''"
    by (simp_all add: example_image_def lasting_connection_def compatibility_table_def
        isTestConnection_youtube_def)
  have p: "platform lasting_connection = ''youtube''"
    "token_expires_at lasting_connection = None"
    by (simp_all add: lasting_connection_def)
  have r: "refreshIfExpiring example_env lasting_connection = (lasting_connection, [])"
    by (simp add: refreshIfExpiring_def p)
  have e: "error (fst (dispatch example_env example_image lasting_connection)) \<noteq>
      Some ''Token expired''"
    using h(2)
    by (simp add: dispatch_def uploadToYouTube_def p r example_image_def)
  show ?thesis
    using incompatible_pair_never_uploaded[OF h, of example_env] h p e by auto
qed

section \<open>Test connections\<close>

text \<open>
  Claim C10.  For every asset, a connection with a test sentinel makes the upload
  function of its platform return success with a synthetic URL and no error; the only
  thing the function does is wait its fixed delay (2000, 1500 and 1000 ms), so no
  network call is made.  The sentinels are: for YouTube the token
  \<open>demo_access_token_youtube\<close>, a token starting with \<open>test-youtube-token-\<close> or the
  connection id \<open>mock-youtube\<close>; for Instagram the token \<open>demo_access_token_instagram\<close>;
  for Facebook the token \<open>demo_access_token_facebook\<close>.
\<close>

theorem test_connections_simulate_success:
  "(access_token c = ''demo_access_token_youtube'' \<or>
    prefix ''test-youtube-token-'' (access_token c) \<or> conn_id c = ''mock-youtube'' \<longrightarrow>
      success (fst (uploadToYouTube env asset c)) \<and>
      url (fst (uploadToYouTube env asset c)) =
        Some (''https://www.youtube.com/watch?v=test-video-'' @ js_int_string (now_mock env)) \<and>
      error (fst (uploadToYouTube env asset c)) = None \<and>
      snd (uploadToYouTube env asset c) = [Delay 2000])
   \<and> (access_token c = ''demo_access_token_instagram'' \<longrightarrow>
      success (fst (uploadToInstagram env asset c)) \<and>
      url (fst (uploadToInstagram env asset c)) =
        Some (''https://www.instagram.com/p/test-post-'' @ js_int_string (now_mock env) @ ''/'') \<and>
      error (fst (uploadToInstagram env asset c)) = None \<and>
      snd (uploadToInstagram env asset c) = [Delay 1500])
   \<and> (access_token c = ''demo_access_token_facebook'' \<longrightarrow>
      success (fst (uploadToFacebook env asset c)) \<and>
      url (fst (uploadToFacebook env asset c)) =
        Some (''https://www.facebook.com/posts/test-facebook-post-'' @
          js_int_string (now_mock env)) \<and>
      error (fst (uploadToFacebook env asset c)) = None \<and>
      snd (uploadToFacebook env asset c) = [Delay 1000])"
  by (simp add: uploadToYouTube_def uploadToInstagram_def uploadToFacebook_def
      isTestConnection_youtube_def)

lemma dec_nat_million: "dec_nat 1000000 = ''1000000''"
  by (simp add: dec_nat.simps digit_char_def)

theorem test_connections_simulate_success_witness:
  "access_token demo_youtube = ''demo_access_token_youtube'' \<and>
   success (fst (uploadToYouTube example_env example_image demo_youtube)) \<and>
   url (fst (uploadToYouTube example_env example_image demo_youtube)) =
     Some ''https://www.youtube.com/watch?v=test-video-1000000'' \<and>
   snd (uploadToYouTube example_env example_image demo_youtube) = [Delay 2000] \<and>
   access_token demo_instagram = ''demo_access_token_instagram'' \<and>
   success (fst (uploadToInstagram example_env example_image demo_instagram)) \<and>
   snd (uploadToInstagram example_env example_image demo_instagram) = [Delay 1500] \<and>
   access_token demo_facebook = ''demo_access_token_facebook'' \<and>
   success (fst (uploadToFacebook example_env example_image demo_facebook)) \<and>
   snd (uploadToFacebook example_env example_image demo_facebook) = [Delay 1000]"
proof -
  have y: "access_token demo_youtube = ''demo_access_token_youtube''"
    by (simp add: demo_youtube_def)
  have i: "access_token demo_instagram = ''demo_access_token_instagram''"
    by (simp add: demo_instagram_def)
  have f: "access_token demo_facebook = ''demo_access_token_facebook''"
    by (simp add: demo_facebook_def)
  have n: "js_int_string (now_mock example_env) = ''1000000''"
    by (simp add: example_env_def js_int_string_def dec_nat_million)
  show ?thesis
    using test_connections_simulate_success[of demo_youtube example_env example_image]
      test_connections_simulate_success[of demo_instagram example_env example_image]
      test_connections_simulate_success[of demo_facebook example_env example_image]
      y i f n
    by simp
qed

section \<open>Decimal numbers and the \<open>Range\<close> header\<close>

text \<open>\<open>parseInt\<close> reads back what a template literal writes for a natural number.\<close>

lemma digit_value_digit_char: "d < 10 \<Longrightarrow> digit_value (digit_char d) = Some d"
proof -
  assume "d < 10"
  then have "d \<in> {0, 1, 2, 3, 4, 5, 6, 7, 8, 9}"
    by auto
  then show ?thesis
    by (auto simp: digit_char_def digit_value_def)
qed

lemma digit_char_cases: "d < 10 \<Longrightarrow> digit_char d \<in> set ''0123456789''"
  unfolding digit_char_def by (rule nth_mem) simp

lemma set_dec_nat: "set (dec_nat n) \<subseteq> set ''0123456789''"
proof (induction n rule: dec_nat.induct)
  case (1 n)
  show ?case
  proof (cases "n < 10")
    case True
    then show ?thesis using digit_char_cases[of n] by (subst dec_nat.simps) simp
  next
    case False
    then show ?thesis using 1 digit_char_cases[of "n mod 10"]
      by (subst dec_nat.simps) simp
  qed
qed

lemma dec_nat_nonempty: "dec_nat n \<noteq> []"
  by (subst dec_nat.simps) simp

lemma leading_digits_append:
  "\<forall>c \<in> set xs. \<exists>d. digit_value c = Some d \<and> d < r \<Longrightarrow>
   leading_digits r (xs @ ys) = map (\<lambda>c. the (digit_value c)) xs @ leading_digits r ys"
  by (induction xs) auto

lemma leading_digits_dec_nat:
  "digits_value 10 (leading_digits 10 (dec_nat n)) = n \<and>
   length (leading_digits 10 (dec_nat n)) = length (dec_nat n)"
proof (induction n rule: dec_nat.induct)
  case (1 n)
  show ?case
  proof (cases "n < 10")
    case True
    then show ?thesis
      by (subst (1 2 3) dec_nat.simps) (simp add: digit_value_digit_char digits_value_def)
  next
    case False
    have all: "\<forall>c \<in> set (dec_nat (n div 10)). \<exists>d. digit_value c = Some d \<and> d < 10"
    proof
      fix c assume "c \<in> set (dec_nat (n div 10))"
      then have "c \<in> set ''0123456789''" using set_dec_nat by blast
      then show "\<exists>d. digit_value c = Some d \<and> d < 10"
        by (auto simp: digit_value_def)
    qed
    have ih: "digits_value 10 (leading_digits 10 (dec_nat (n div 10))) = n div 10"
      "length (leading_digits 10 (dec_nat (n div 10))) = length (dec_nat (n div 10))"
      using 1 False by simp_all
    have l: "leading_digits 10 (dec_nat (n div 10) @ [digit_char (n mod 10)]) =
        leading_digits 10 (dec_nat (n div 10)) @ [n mod 10]"
      using leading_digits_append[OF all, of "[]"] leading_digits_append[OF all, of "[digit_char (n mod 10)]"]
      by (simp add: digit_value_digit_char)
    show ?thesis
      using False ih
      by (subst (1 2 3) dec_nat.simps) (simp add: l digits_value_def)
  qed
qed

lemma strip_radix_digits: "set cs \<subseteq> set ''0123456789'' \<Longrightarrow> strip_radix cs = (10, cs)"
proof (cases cs rule: strip_radix.cases)
  case (1 a b ds)
  assume "set cs \<subseteq> set ''0123456789''"
  with 1 have "b \<in> set ''0123456789''" by simp
  then have "b \<noteq> CHR ''x'' \<and> b \<noteq> CHR ''X''" by auto
  with 1 show ?thesis by simp
qed simp_all

lemma strip_sign_digits:
  "set cs \<subseteq> set ''0123456789'' \<Longrightarrow> strip_sign (dropWhile is_js_space cs) = (False, cs)"
proof (cases cs)
  case (Cons c ds)
  assume "set cs \<subseteq> set ''0123456789''"
  with Cons have "c \<in> set ''0123456789''" by simp
  then have "\<not> is_js_space c \<and> c \<noteq> CHR ''-'' \<and> c \<noteq> CHR ''+''"
    by (auto simp: is_js_space_def)
  with Cons show ?thesis by simp
qed simp

lemma parseInt_dec_nat: "parseInt (dec_nat n) = Num (int n)"
proof -
  have ne: "leading_digits 10 (dec_nat n) \<noteq> []"
    using leading_digits_dec_nat[of n] dec_nat_nonempty[of n] by auto
  show ?thesis
    using leading_digits_dec_nat[of n] ne
    by (simp add: parseInt_def strip_sign_digits[OF set_dec_nat] strip_radix_digits[OF set_dec_nat])
qed

lemma js_split_no_sep: "sep \<notin> set xs \<Longrightarrow> js_split sep xs = [xs]"
  by (induction xs) auto

lemma js_split_append: "sep \<notin> set xs \<Longrightarrow> js_split sep (xs @ sep # ys) = xs # js_split sep ys"
  by (induction xs) auto

lemma dash_notin_dec_nat: "CHR ''-'' \<notin> set (dec_nat n)"
  using set_dec_nat[of n] by auto

lemma rangeEnd_bytes: "rangeEnd (''bytes='' @ dec_nat a @ ''-'' @ dec_nat k) = Num (int k)"
proof -
  have "CHR ''-'' \<notin> set (''bytes='' @ dec_nat a)"
    using dash_notin_dec_nat[of a] by simp
  then have "js_split CHR ''-'' ((''bytes='' @ dec_nat a) @ CHR ''-'' # dec_nat k) =
      (''bytes='' @ dec_nat a) # js_split CHR ''-'' (dec_nat k)"
    by (rule js_split_append)
  then show ?thesis
    by (simp add: rangeEnd_def js_split_no_sep dash_notin_dec_nat parseInt_dec_nat)
qed

lemma next_start_bytes:
  "next_start (Some (''bytes='' @ dec_nat a @ ''-'' @ dec_nat k)) e = Num (int k + 1)"
proof -
  have "next_start (Some h) e = js_add (rangeEnd h) 1" if "h \<noteq> []" for h
    using that by (simp add: next_start_def)
  from this[of "''bytes='' @ dec_nat a @ ''-'' @ dec_nat k"] show ?thesis
    by (simp only: rangeEnd_bytes js_add_def jsnum.case) simp
qed

lemma dec_nat_0: "dec_nat 0 = ''0''"
  by (simp add: dec_nat.simps digit_char_def)

lemma next_start_stuck: "next_start (Some ''bytes=0-0'') e = Num 1"
  using next_start_bytes[of 0 0 e] by (simp add: dec_nat_0)

lemma slice_index_nat: "slice_index (Num (int a)) len = min a len"
  by (simp add: slice_index_def min_def)

lemma js_less_nat: "js_less (Num (int a)) (int b) \<longleftrightarrow> a < b"
  by (simp add: js_less_def)

section \<open>The spans of a clean run\<close>

lemma chunkSize_pos: "0 < chunkSize"
  by (simp add: chunkSize_def)

lemma less_chunk_count: "k < chunk_count S \<longleftrightarrow> k * chunkSize < S"
proof -
  have "k < chunk_count S \<longleftrightarrow> Suc k \<le> (S + chunkSize - 1) div chunkSize"
    by (simp add: chunk_count_def Suc_le_eq)
  also have "\<dots> \<longleftrightarrow> Suc k * chunkSize \<le> S + chunkSize - 1"
    using chunkSize_pos by (simp add: less_eq_div_iff_mult_less_eq)
  also have "\<dots> \<longleftrightarrow> k * chunkSize < S"
    using chunkSize_pos by auto
  finally show ?thesis .
qed

lemma chunk_put_clean:
  assumes "k < chunk_count S"
  shows "chunk_put (Num (int (span_first k))) S = clean_put S k"
    and "chunk_stop (Num (int (span_first k))) S = Num (int (span_stop S k))"
proof -
  have lt: "k * chunkSize < S" using assms by (simp add: less_chunk_count)
  have "min (int (span_first k) + int chunkSize) (int S) = int (min (span_first k + chunkSize) S)"
    by (simp only: of_nat_add [symmetric] of_nat_min)
  then show st: "chunk_stop (Num (int (span_first k))) S = Num (int (span_stop S k))"
    by (simp add: chunk_stop_def js_add_def js_min_def span_first_def span_stop_def add.commute)
  have pos: "0 < span_stop S k"
    using lt chunkSize_pos by (simp add: span_stop_def)
  have a: "slice_index (Num (int (span_first k))) S = span_first k"
    using lt by (simp only: slice_index_nat) (simp add: span_first_def)
  have b: "slice_index (Num (int (span_stop S k))) S = span_stop S k"
    by (simp only: slice_index_nat) (simp add: span_stop_def)
  have c: "js_num_string (Num (int (span_first k))) = dec_nat (span_first k)"
    by (simp add: js_num_string_def js_int_string_def)
  have d: "js_num_string (js_add (Num (int (span_stop S k))) (- 1)) = dec_nat (span_stop S k - 1)"
    using pos by (simp add: js_num_string_def js_int_string_def js_add_def nat_diff_distrib)
  show "chunk_put (Num (int (span_first k))) S = clean_put S k"
    by (simp add: chunk_put_def clean_put_def st a b c d Let_def)
qed

lemma acknowledges_next:
  assumes "acknowledges r stop" "0 < stop"
  shows "\<exists>hdr b. r = PutResp 308 hdr b \<and> next_start hdr (Num (int stop)) = Num (int stop)"
proof (cases r)
  case (PutResp st hdr b)
  with assms(1) have st: "st = 308" and h: "hdr = None \<or> hdr = Some (''bytes=0-'' @ dec_nat (stop - 1))"
    by auto
  from h have "next_start hdr (Num (int stop)) = Num (int stop)"
  proof
    assume "hdr = None" then show ?thesis by (simp add: next_start_def)
  next
    assume "hdr = Some (''bytes=0-'' @ dec_nat (stop - 1))"
    then have "hdr = Some (''bytes='' @ dec_nat 0 @ ''-'' @ dec_nat (stop - 1))"
      by (simp add: dec_nat_0)
    then show ?thesis using assms(2) by (simp only: next_start_bytes) simp
  qed
  with PutResp st show ?thesis by simp
next
  case (PutThrows e)
  with assms(1) show ?thesis by simp
qed

lemma edge_clean_from:
  assumes "clean_run reply S"
  shows "k < chunk_count S \<Longrightarrow>
    \<exists>r. upload_loop_edge reply S (Num (int (span_first k))) k sent =
      Some (r, sent @ map (clean_put S) [k..<chunk_count S])"
proof (induction "chunk_count S - Suc k" arbitrary: k sent)
  case 0
  then have last: "Suc k = chunk_count S" by simp
  with assms have "is_success (reply k)"
    by (auto simp: clean_run_def)
  then obtain st hdr b where r: "reply k = PutResp st hdr b" "st = 200 \<or> st = 201"
    by (cases "reply k") auto
  have "[k..<chunk_count S] = [k]" using last by (metis upt_Suc_append upt_eq_Nil_conv append_Nil less_or_eq_imp_le)
  then show ?case
    using r 0(2) by (subst upload_loop_edge.simps) (auto simp: chunk_put_clean split: put_body.splits)
next
  case (Suc m)
  then have more: "Suc k < chunk_count S" by simp
  with assms Suc.prems have "acknowledges (reply k) (span_stop S k)"
    by (auto simp: clean_run_def)
  moreover have "0 < span_stop S k"
    using Suc.prems chunkSize_pos by (simp add: span_stop_def less_chunk_count)
  ultimately obtain hdr b where r: "reply k = PutResp 308 hdr b"
    "next_start hdr (Num (int (span_stop S k))) = Num (int (span_stop S k))"
    using acknowledges_next by blast
  have stop: "span_stop S k = span_first (Suc k)"
    using more by (simp add: span_stop_def span_first_def less_chunk_count)
  have "chunk_count S - Suc (Suc k) = m" using Suc.hyps(2) by simp
  from Suc.hyps(1)[OF this[symmetric] more, of "sent @ [clean_put S k]"]
  obtain r' where "upload_loop_edge reply S (Num (int (span_first (Suc k)))) (Suc k) (sent @ [clean_put S k]) =
      Some (r', (sent @ [clean_put S k]) @ map (clean_put S) [Suc k..<chunk_count S])" by blast
  moreover have "[k..<chunk_count S] = k # [Suc k..<chunk_count S]"
    using Suc.prems by (simp add: upt_conv_Cons)
  ultimately show ?case
    using r Suc.prems
    by (subst upload_loop_edge.simps) (simp add: chunk_put_clean stop)
qed

lemma oauth_clean_from:
  assumes "clean_run reply S"
  shows "k < chunk_count S \<Longrightarrow>
    \<exists>r. upload_loop_oauth reply S (Num (int (span_first k))) k sent =
      Some (r, sent @ map (clean_put S) [k..<chunk_count S])"
proof (induction "chunk_count S - Suc k" arbitrary: k sent)
  case 0
  then have last: "Suc k = chunk_count S" by simp
  with assms have "is_success (reply k)"
    by (auto simp: clean_run_def)
  then obtain st hdr b where r: "reply k = PutResp st hdr b" "st = 200 \<or> st = 201"
    by (cases "reply k") auto
  have lt: "js_less (Num (int (span_first k))) (int S)"
    using 0(2) by (simp only: js_less_nat) (simp add: less_chunk_count span_first_def)
  have "[k..<chunk_count S] = [k]"
    using last by (metis upt_Suc_append upt_eq_Nil_conv append_Nil less_or_eq_imp_le)
  then show ?case
    using r 0(2) lt by (subst upload_loop_oauth.simps) (auto simp: chunk_put_clean split: put_body.splits)
next
  case (Suc m)
  then have more: "Suc k < chunk_count S" by simp
  with assms Suc.prems have "acknowledges (reply k) (span_stop S k)"
    by (auto simp: clean_run_def)
  moreover have "0 < span_stop S k"
    using Suc.prems chunkSize_pos by (simp add: span_stop_def less_chunk_count)
  ultimately obtain hdr b where r: "reply k = PutResp 308 hdr b"
    "next_start hdr (Num (int (span_stop S k))) = Num (int (span_stop S k))"
    using acknowledges_next by blast
  have lt: "js_less (Num (int (span_first k))) (int S)"
    using Suc.prems by (simp only: js_less_nat) (simp add: less_chunk_count span_first_def)
  have stop: "span_stop S k = span_first (Suc k)"
    using more by (simp add: span_stop_def span_first_def less_chunk_count)
  have "chunk_count S - Suc (Suc k) = m" using Suc.hyps(2) by simp
  from Suc.hyps(1)[OF this[symmetric] more, of "sent @ [clean_put S k]"]
  obtain r' where "upload_loop_oauth reply S (Num (int (span_first (Suc k)))) (Suc k) (sent @ [clean_put S k]) =
      Some (r', (sent @ [clean_put S k]) @ map (clean_put S) [Suc k..<chunk_count S])" by blast
  moreover have "[k..<chunk_count S] = k # [Suc k..<chunk_count S]"
    using Suc.prems by (simp add: upt_conv_Cons)
  ultimately show ?case
    using r Suc.prems lt
    by (subst upload_loop_oauth.simps) (simp add: chunk_put_clean stop)
qed

lemma chunk_count_pos: "0 < S \<Longrightarrow> 0 < chunk_count S"
  by (simp add: less_chunk_count)

lemma span_bounds:
  assumes "i < chunk_count S"
  shows "span_first i < span_stop S i" "span_stop S i - span_first i \<le> chunkSize"
    "span_stop S i \<le> S"
  using assms chunkSize_pos by (auto simp: less_chunk_count span_first_def span_stop_def)

lemma span_contiguous: "Suc i < chunk_count S \<Longrightarrow> span_first (Suc i) = span_stop S i"
  by (simp add: less_chunk_count span_first_def span_stop_def)

lemma span_last: "0 < S \<Longrightarrow> span_stop S (chunk_count S - 1) = S"
proof -
  assume "0 < S"
  then have "0 < chunk_count S" by (rule chunk_count_pos)
  then have "\<not> chunk_count S < chunk_count S" "Suc (chunk_count S - 1) = chunk_count S" by simp_all
  then have "\<not> Suc (chunk_count S - 1) * chunkSize < S"
    by (metis less_chunk_count)
  then show ?thesis by (simp add: span_stop_def)
qed

lemma span_cover:
  assumes "b < S"
  shows "\<exists>!i. i < chunk_count S \<and> span_first i \<le> b \<and> b < span_stop S i"
proof
  have le: "(b div chunkSize) * chunkSize \<le> b" by simp
  have lt: "b < Suc (b div chunkSize) * chunkSize"
    using chunkSize_pos by (metis dividend_less_div_times mult_Suc)
  have "(b div chunkSize) * chunkSize < S"
    using le assms by (rule le_less_trans)
  then show "b div chunkSize < chunk_count S \<and> span_first (b div chunkSize) \<le> b \<and>
      b < span_stop S (b div chunkSize)"
    using lt assms by (simp add: less_chunk_count span_first_def span_stop_def)
next
  fix i assume "i < chunk_count S \<and> span_first i \<le> b \<and> b < span_stop S i"
  then have "chunkSize * i \<le> b" "b < chunkSize * Suc i"
    by (simp_all add: span_first_def span_stop_def mult.commute)
  then show "i = b div chunkSize"
    by (metis div_nat_eqI)
qed

text \<open>
  Claim C2.  For a payload of \<open>S > 0\<close> bytes and a clean run, both loops return, and the
  PUTs they have sent are exactly the PUTs of the spans \<open>0, \<dots>, chunk_count S - 1\<close>, in
  this order: span \<open>i\<close> carries the bytes from \<open>span_first i\<close> up to \<open>span_stop S i\<close> with
  the header \<open>bytes first-(stop-1)/S\<close>.  The chunk size is 5 MiB; the first span starts
  at byte 0, every span is non-empty and at most one chunk long, each span starts where
  the one before it stops, the last span stops at \<open>S\<close> (its last byte is \<open>S - 1\<close>), and
  every byte below \<open>S\<close> lies in exactly one span.
\<close>

theorem clean_run_content_ranges:
  assumes "0 < S" and "clean_run reply S"
  shows
   "map_option snd (upload_loop_edge reply S (Num 0) 0 []) =
      Some (map (\<lambda>i. ChunkPut (span_stop S i - span_first i)
                  (''bytes '' @ dec_nat (span_first i) @ ''-'' @ dec_nat (span_stop S i - 1) @
                   ''/'' @ dec_nat S)
                  (span_first i) (span_stop S i)) [0..<chunk_count S]) \<and>
    map_option snd (upload_loop_oauth reply S (Num 0) 0 []) =
      Some (map (\<lambda>i. ChunkPut (span_stop S i - span_first i)
                  (''bytes '' @ dec_nat (span_first i) @ ''-'' @ dec_nat (span_stop S i - 1) @
                   ''/'' @ dec_nat S)
                  (span_first i) (span_stop S i)) [0..<chunk_count S]) \<and>
    chunkSize = 5 * 2 ^ 20 \<and>
    span_first 0 = 0 \<and>
    (\<forall>i < chunk_count S. span_first i < span_stop S i \<and>
        span_stop S i - span_first i \<le> chunkSize) \<and>
    (\<forall>i. Suc i < chunk_count S \<longrightarrow> span_first (Suc i) = span_stop S i) \<and>
    span_stop S (chunk_count S - 1) = S \<and>
    (\<forall>b < S. \<exists>!i. i < chunk_count S \<and> span_first i \<le> b \<and> b < span_stop S i)"
proof -
  have pos: "0 < chunk_count S" using assms(1) by (rule chunk_count_pos)
  have z: "Num 0 = Num (int (span_first 0))" by (simp add: span_first_def)
  have cp: "clean_put S = (\<lambda>i. ChunkPut (span_stop S i - span_first i)
                  (''bytes '' @ dec_nat (span_first i) @ ''-'' @ dec_nat (span_stop S i - 1) @
                   ''/'' @ dec_nat S)
                  (span_first i) (span_stop S i))"
    by (rule ext) (simp add: clean_put_def)
  obtain r where "upload_loop_edge reply S (Num 0) 0 [] = Some (r, map (clean_put S) [0..<chunk_count S])"
    using edge_clean_from[OF assms(2) pos, of "[]"] unfolding z by auto
  then have e: "map_option snd (upload_loop_edge reply S (Num 0) 0 []) =
      Some (map (clean_put S) [0..<chunk_count S])" by simp
  obtain r' where "upload_loop_oauth reply S (Num 0) 0 [] = Some (r', map (clean_put S) [0..<chunk_count S])"
    using oauth_clean_from[OF assms(2) pos, of "[]"] unfolding z by auto
  then have o: "map_option snd (upload_loop_oauth reply S (Num 0) 0 []) =
      Some (map (clean_put S) [0..<chunk_count S])" by simp
  have c: "chunkSize = 5 * 2 ^ 20" by (simp add: chunkSize_def)
  have f: "span_first 0 = 0" by (simp add: span_first_def)
  show ?thesis
    using e o c f span_bounds(1,2)[of _ S] span_contiguous[of _ S] span_last[OF assms(1)]
      span_cover[of _ S]
    unfolding cp by blast
qed

lemma chunk_count_12MiB: "chunk_count 12582912 = 3"
  by (simp add: chunk_count_def chunkSize_def)

lemma dec_nat_5242879: "dec_nat 5242879 = ''5242879''"
  by (simp add: dec_nat.simps digit_char_def)

lemma clean_run_example: "clean_run clean_replies 12582912"
  unfolding clean_run_def chunk_count_12MiB
proof (intro allI impI)
  fix i :: nat assume "i < 3"
  then have "i = 0 \<or> i = 1 \<or> i = 2" by auto
  then show "if Suc i = 3 then is_success (clean_replies i)
      else acknowledges (clean_replies i) (span_stop 12582912 i)"
    by (auto simp: clean_replies_def span_stop_def chunkSize_def dec_nat_5242879)
qed

theorem clean_run_content_ranges_witness:
  "(0::nat) < 12582912 \<and> clean_run clean_replies 12582912 \<and>
   map_option snd (upload_loop_edge clean_replies 12582912 (Num 0) 0 []) =
     Some [ChunkPut 5242880 ''bytes 0-5242879/12582912'' 0 5242880,
           ChunkPut 5242880 ''bytes 5242880-10485759/12582912'' 5242880 10485760,
           ChunkPut 2097152 ''bytes 10485760-12582911/12582912'' 10485760 12582912] \<and>
   map_option snd (upload_loop_oauth clean_replies 12582912 (Num 0) 0 []) =
     Some [ChunkPut 5242880 ''bytes 0-5242879/12582912'' 0 5242880,
           ChunkPut 5242880 ''bytes 5242880-10485759/12582912'' 5242880 10485760,
           ChunkPut 2097152 ''bytes 10485760-12582911/12582912'' 10485760 12582912]"
proof -
  have p: "(0::nat) < 12582912" by simp
  have u: "[0..<3] = [0, 1, 2]" by (simp add: upt_rec)
  have d: "dec_nat 0 = ''0''" "dec_nat 5242879 = ''5242879''" "dec_nat 5242880 = ''5242880''"
    "dec_nat 10485759 = ''10485759''" "dec_nat 10485760 = ''10485760''"
    "dec_nat 12582911 = ''12582911''" "dec_nat 12582912 = ''12582912''"
    by (simp_all add: dec_nat.simps digit_char_def)
  show ?thesis
    using clean_run_content_ranges[OF p clean_run_example] p clean_run_example
    by (simp add: chunk_count_12MiB u span_first_def span_stop_def chunkSize_def d)
qed

section \<open>Termination of the loops\<close>

lemma edge_stuck_aux:
  assumes "upload_loop_edge reply len start n sent = Some y"
  shows "\<not> (reply = stuck_reply \<and> start = Num 1)"
proof (rule upload_loop_edge.raw_induct
    [where P = "\<lambda>reply len start n sent y. \<not> (reply = stuck_reply \<and> start = Num 1)", OF _ assms],
    goal_cases)
  case (1 f reply len start n sent y)
  show ?case
  proof
    assume a: "reply = stuck_reply \<and> start = Num 1"
    with 1(2) have "f stuck_reply len (Num 1) (Suc n) (sent @ [chunk_put (Num 1) len]) = Some y"
      by (simp add: stuck_reply_def next_start_stuck)
    from 1(1)[OF this] show False by simp
  qed
qed

lemma edge_stuck: "upload_loop_edge stuck_reply len (Num 1) n sent = None"
proof (cases "upload_loop_edge stuck_reply len (Num 1) n sent")
  case (Some y)
  from edge_stuck_aux[OF this] show ?thesis by simp
qed simp

lemma oauth_stuck_aux:
  assumes "upload_loop_oauth reply len start n sent = Some y"
  shows "\<not> (reply = stuck_reply \<and> start = Num 1 \<and> 1 < len)"
proof (rule upload_loop_oauth.raw_induct
    [where P = "\<lambda>reply len start n sent y. \<not> (reply = stuck_reply \<and> start = Num 1 \<and> 1 < len)",
     OF _ assms], goal_cases)
  case (1 f reply len start n sent y)
  show ?case
  proof
    assume a: "reply = stuck_reply \<and> start = Num 1 \<and> 1 < len"
    with 1(2) have "f stuck_reply len (Num 1) (Suc n) (sent @ [chunk_put (Num 1) len]) = Some y"
      by (simp add: stuck_reply_def next_start_stuck js_less_def)
    from 1(1)[OF this] a show False by simp
  qed
qed

lemma oauth_stuck:
  assumes "1 < len"
  shows "upload_loop_oauth stuck_reply len (Num 1) n sent = None"
proof (cases "upload_loop_oauth stuck_reply len (Num 1) n sent")
  case (Some y)
  from oauth_stuck_aux[OF this] assms show ?thesis by simp
qed simp

text \<open>
  Claim C4, as stated, fails.  Against a platform that answers every PUT with 308 and
  the header \<open>Range: bytes=0-0\<close>, neither loop returns on a payload of two bytes: \<open>start\<close>
  stays at byte 1 for ever.
\<close>

theorem upload_loops_never_return_on_stuck_platform:
  "upload_loop_edge stuck_reply 2 (Num 0) 0 [] = None \<and>
   upload_loop_oauth stuck_reply 2 (Num 0) 0 [] = None"
proof -
  have "upload_loop_edge stuck_reply 2 (Num 0) 0 [] =
      upload_loop_edge stuck_reply 2 (Num 1) (Suc 0) ([] @ [chunk_put (Num 0) 2])"
    by (subst upload_loop_edge.simps) (simp add: stuck_reply_def next_start_stuck)
  moreover have "upload_loop_oauth stuck_reply 2 (Num 0) 0 [] =
      upload_loop_oauth stuck_reply 2 (Num 1) (Suc 0) ([] @ [chunk_put (Num 0) 2])"
    by (subst upload_loop_oauth.simps) (simp add: stuck_reply_def next_start_stuck js_less_def)
  ultimately show ?thesis
    by (simp only: edge_stuck oauth_stuck[of 2, simplified])
qed

lemma edge_terminates:
  "\<not> is_continue (reply (n0 + n)) \<Longrightarrow>
   \<exists>r calls. upload_loop_edge reply len start n0 sent = Some (r, sent @ calls) \<and>
     length calls \<le> Suc n \<and> calls \<noteq> []"
proof (induction n arbitrary: n0 start sent)
  case 0
  then show ?case
    by (subst upload_loop_edge.simps) (auto split: chunk_reply.splits put_body.splits)
next
  case (Suc n)
  show ?case
  proof (cases "is_continue (reply n0)")
    case False
    then show ?thesis
      by (subst upload_loop_edge.simps) (auto split: chunk_reply.splits put_body.splits)
  next
    case True
    then obtain hdr b where r: "reply n0 = PutResp 308 hdr b"
      by (cases "reply n0") auto
    from Suc.prems have "\<not> is_continue (reply (Suc n0 + n))" by simp
    from Suc.IH[OF this, of "next_start hdr (chunk_stop start len)" "sent @ [chunk_put start len]"]
    obtain r' calls where c: "upload_loop_edge reply len (next_start hdr (chunk_stop start len)) (Suc n0)
        (sent @ [chunk_put start len]) = Some (r', (sent @ [chunk_put start len]) @ calls)"
        "length calls \<le> Suc n" by blast
    have "upload_loop_edge reply len start n0 sent = Some (r', sent @ (chunk_put start len # calls))"
      using r c(1) by (subst upload_loop_edge.simps) simp
    with c(2) show ?thesis by fastforce
  qed
qed

lemma oauth_terminates:
  "\<not> is_continue (reply (n0 + n)) \<Longrightarrow>
   \<exists>r calls. upload_loop_oauth reply len start n0 sent = Some (r, sent @ calls) \<and>
     length calls \<le> Suc n"
proof (induction n arbitrary: n0 start sent)
  case 0
  then show ?case
    by (subst upload_loop_oauth.simps) (auto split: chunk_reply.splits put_body.splits)
next
  case (Suc n)
  show ?case
  proof (cases "is_continue (reply n0) \<and> js_less start (int len)")
    case False
    then show ?thesis
      by (subst upload_loop_oauth.simps) (auto split: chunk_reply.splits put_body.splits)
  next
    case True
    then obtain hdr b where r: "reply n0 = PutResp 308 hdr b"
      by (cases "reply n0") auto
    from Suc.prems have "\<not> is_continue (reply (Suc n0 + n))" by simp
    from Suc.IH[OF this, of "next_start hdr (chunk_stop start len)" "sent @ [chunk_put start len]"]
    obtain r' calls where c: "upload_loop_oauth reply len (next_start hdr (chunk_stop start len)) (Suc n0)
        (sent @ [chunk_put start len]) = Some (r', (sent @ [chunk_put start len]) @ calls)"
        "length calls \<le> Suc n" by blast
    have "upload_loop_oauth reply len start n0 sent = Some (r', sent @ (chunk_put start len # calls))"
      using r c(1) True by (subst upload_loop_oauth.simps) simp
    with c(2) show ?thesis by fastforce
  qed
qed

text \<open>
  Claim C4, amended.  The loops have no bound of their own; they stop at the first reply
  that is not a 308.  If the reply to PUT number \<open>n\<close> (counting from 0) is not a 308,
  both loops return after at most \<open>n + 1\<close> PUTs.
\<close>

theorem upload_loops_stop_at_terminal_reply:
  assumes "\<not> is_continue (reply n)"
  shows "(\<exists>r calls. upload_loop_edge reply len (Num 0) 0 [] = Some (r, calls) \<and> length calls \<le> Suc n) \<and>
         (\<exists>r calls. upload_loop_oauth reply len (Num 0) 0 [] = Some (r, calls) \<and> length calls \<le> Suc n)"
  using edge_terminates[of reply 0 n len "Num 0" "[]"] oauth_terminates[of reply 0 n len "Num 0" "[]"] assms
  by auto

theorem upload_loops_stop_at_terminal_reply_witness:
  "\<not> is_continue (failing_replies 1) \<and>
   upload_loop_edge failing_replies 12582912 (Num 0) 0 [] =
     Some (Raised (ChunkFailed 503),
       [ChunkPut 5242880 ''bytes 0-5242879/12582912'' 0 5242880,
        ChunkPut 5242880 ''bytes 5242880-10485759/12582912'' 5242880 10485760]) \<and>
   upload_loop_oauth failing_replies 12582912 (Num 0) 0 [] =
     Some (Raised (ChunkFailed 503),
       [ChunkPut 5242880 ''bytes 0-5242879/12582912'' 0 5242880,
        ChunkPut 5242880 ''bytes 5242880-10485759/12582912'' 5242880 10485760])"
proof -
  have t: "\<not> is_continue (failing_replies 1)" by (simp add: failing_replies_def)
  have d: "dec_nat 0 = ''0''" "dec_nat 5242879 = ''5242879''" "dec_nat 5242880 = ''5242880''"
    "dec_nat 10485759 = ''10485759''" "dec_nat 12582912 = ''12582912''"
    by (simp_all add: dec_nat.simps digit_char_def)
  have p0: "chunk_put (Num 0) 12582912 = ChunkPut 5242880 ''bytes 0-5242879/12582912'' 0 5242880"
    by (simp add: chunk_put_def chunk_stop_def js_add_def js_min_def slice_index_def chunkSize_def
        js_num_string_def js_int_string_def d Let_def)
  have p1: "chunk_put (Num 5242880) 12582912 =
      ChunkPut 5242880 ''bytes 5242880-10485759/12582912'' 5242880 10485760"
    by (simp add: chunk_put_def chunk_stop_def js_add_def js_min_def slice_index_def chunkSize_def
        js_num_string_def js_int_string_def d Let_def)
  have s0: "chunk_stop (Num 0) 12582912 = Num 5242880"
    by (simp add: chunk_stop_def js_add_def js_min_def chunkSize_def)
  have e: "upload_loop_edge failing_replies 12582912 (Num 0) 0 [] =
     Some (Raised (ChunkFailed 503),
       [ChunkPut 5242880 ''bytes 0-5242879/12582912'' 0 5242880,
        ChunkPut 5242880 ''bytes 5242880-10485759/12582912'' 5242880 10485760])"
    apply (subst upload_loop_edge.simps)
    apply (simp add: failing_replies_def next_start_def s0 p0)
    apply (subst upload_loop_edge.simps)
    apply (simp add: failing_replies_def p1)
    done
  have o: "upload_loop_oauth failing_replies 12582912 (Num 0) 0 [] =
     Some (Raised (ChunkFailed 503),
       [ChunkPut 5242880 ''bytes 0-5242879/12582912'' 0 5242880,
        ChunkPut 5242880 ''bytes 5242880-10485759/12582912'' 5242880 10485760])"
    apply (subst upload_loop_oauth.simps)
    apply (simp add: failing_replies_def next_start_def s0 p0 js_less_def)
    apply (subst upload_loop_oauth.simps)
    apply (simp add: failing_replies_def p1 js_less_def)
    done
  show ?thesis
    using upload_loops_stop_at_terminal_reply[where reply = failing_replies and n = 1 and len = 12582912, OF t] t e o
    by simp
qed

section \<open>The continue status\<close>

lemma chunk_stop_nat: "chunk_stop (Num (int k)) len = Num (int (min (k + chunkSize) len))"
proof -
  have "min (int k + int chunkSize) (int len) = int (min (k + chunkSize) len)"
    by (simp only: of_nat_add [symmetric] of_nat_min)
  then show ?thesis
    by (simp add: chunk_stop_def js_add_def js_min_def)
qed

lemma chunk_put_nat: "chunk_put (Num (int k)) len = put_from len k"
proof -
  have b: "slice_index (Num (int (min (k + chunkSize) len))) len = min (k + chunkSize) len"
    by (simp only: slice_index_nat min.assoc min.idem)
  show ?thesis
    by (simp add: chunk_put_def put_from_def chunk_stop_nat b slice_index_nat js_num_string_def
        js_int_string_def js_add_def Let_def)
qed

lemma edge_first_put:
  assumes "upload_loop_edge reply len start n sent = Some y"
  shows "\<exists>rest. snd y = sent @ chunk_put start len # rest"
proof (rule upload_loop_edge.raw_induct
    [where P = "\<lambda>reply len start n sent y. \<exists>rest. snd y = sent @ chunk_put start len # rest",
     OF _ assms], goal_cases)
  case (1 f reply len start n sent y)
  show ?case
  proof (cases "is_continue (reply n)")
    case False
    with 1(2) show ?thesis
      by (auto split: chunk_reply.splits put_body.splits if_splits)
  next
    case True
    then obtain hdr b where r: "reply n = PutResp 308 hdr b"
      by (cases "reply n") auto
    with 1(2) have "f reply len (next_start hdr (chunk_stop start len)) (Suc n)
        (sent @ [chunk_put start len]) = Some y" by simp
    from 1(1)[OF this] show ?thesis by auto
  qed
qed

lemma oauth_first_put:
  assumes "upload_loop_oauth reply len start n sent = Some y"
  shows "\<exists>rest. snd y = sent @ rest \<and>
     (js_less start (int len) \<longrightarrow> (\<exists>more. rest = chunk_put start len # more))"
proof (rule upload_loop_oauth.raw_induct
    [where P = "\<lambda>reply len start n sent y. \<exists>rest. snd y = sent @ rest \<and>
     (js_less start (int len) \<longrightarrow> (\<exists>more. rest = chunk_put start len # more))",
     OF _ assms], goal_cases)
  case (1 f reply len start n sent y)
  show ?case
  proof (cases "is_continue (reply n) \<and> js_less start (int len)")
    case False
    with 1(2) show ?thesis
      by (auto split: chunk_reply.splits put_body.splits if_splits)
  next
    case True
    then obtain hdr b where r: "reply n = PutResp 308 hdr b"
      by (cases "reply n") auto
    with 1(2) True have "f reply len (next_start hdr (chunk_stop start len)) (Suc n)
        (sent @ [chunk_put start len]) = Some y" by simp
    from 1(1)[OF this] show ?thesis by auto
  qed
qed

lemma edge_resumes:
  assumes "reply n = PutResp 308 hdr b"
    and "\<not> is_continue (reply (Suc n + m))"
    and "next_start hdr (chunk_stop (Num (int s)) len) = Num (int resume)"
  shows "\<exists>r rest. upload_loop_edge reply len (Num (int s)) n sent =
      Some (r, sent @ put_from len s # put_from len resume # rest) \<and> length rest \<le> m"
proof -
  from edge_terminates[where reply = reply and ?n0.0 = "Suc n" and n = m and len = len
      and start = "Num (int resume)" and sent = "sent @ [put_from len s]", OF assms(2)]
  obtain r calls where c:
    "upload_loop_edge reply len (Num (int resume)) (Suc n) (sent @ [put_from len s]) =
       Some (r, (sent @ [put_from len s]) @ calls)" "length calls \<le> Suc m"
    by blast
  from edge_first_put[OF c(1)] obtain rest where "calls = put_from len resume # rest"
    by (auto simp: chunk_put_nat)
  with c have "upload_loop_edge reply len (Num (int resume)) (Suc n) (sent @ [put_from len s]) =
       Some (r, sent @ put_from len s # put_from len resume # rest)" "length rest \<le> m"
    by simp_all
  then show ?thesis
    using assms(1,3) by (subst upload_loop_edge.simps) (simp add: chunk_put_nat)
qed

lemma oauth_resumes:
  assumes "reply n = PutResp 308 hdr b"
    and "\<not> is_continue (reply (Suc n + m))"
    and "next_start hdr (chunk_stop (Num (int s)) len) = Num (int resume)"
    and "s < len"
  shows "resume < len \<longrightarrow> (\<exists>r rest. upload_loop_oauth reply len (Num (int s)) n sent =
      Some (r, sent @ put_from len s # put_from len resume # rest) \<and> length rest \<le> m)"
    and "len \<le> resume \<longrightarrow> upload_loop_oauth reply len (Num (int s)) n sent =
      Some (Exhausted, sent @ [put_from len s])"
proof -
  have step: "upload_loop_oauth reply len (Num (int s)) n sent =
      upload_loop_oauth reply len (Num (int resume)) (Suc n) (sent @ [put_from len s])"
    using assms(1,3,4)
    by (subst upload_loop_oauth.simps) (simp add: chunk_put_nat js_less_nat)
  show "len \<le> resume \<longrightarrow> upload_loop_oauth reply len (Num (int s)) n sent =
      Some (Exhausted, sent @ [put_from len s])"
  proof
    assume "len \<le> resume"
    then have "\<not> js_less (Num (int resume)) (int len)" by (simp add: js_less_nat)
    then show "upload_loop_oauth reply len (Num (int s)) n sent =
        Some (Exhausted, sent @ [put_from len s])"
      unfolding step by (subst upload_loop_oauth.simps) (simp only: if_False)
  qed
  show "resume < len \<longrightarrow> (\<exists>r rest. upload_loop_oauth reply len (Num (int s)) n sent =
      Some (r, sent @ put_from len s # put_from len resume # rest) \<and> length rest \<le> m)"
  proof
    assume lt: "resume < len"
    then have l: "js_less (Num (int resume)) (int len)" by (simp add: js_less_nat)
    from oauth_terminates[where reply = reply and ?n0.0 = "Suc n" and n = m and len = len
        and start = "Num (int resume)" and sent = "sent @ [put_from len s]", OF assms(2)]
    obtain r calls where c:
      "upload_loop_oauth reply len (Num (int resume)) (Suc n) (sent @ [put_from len s]) =
         Some (r, (sent @ [put_from len s]) @ calls)" "length calls \<le> Suc m"
      by blast
    from oauth_first_put[OF c(1)] l obtain rest where "calls = put_from len resume # rest"
      by (auto simp: chunk_put_nat)
    with c have "upload_loop_oauth reply len (Num (int resume)) (Suc n) (sent @ [put_from len s]) =
         Some (r, sent @ put_from len s # put_from len resume # rest)" "length rest \<le> m"
      by simp_all
    then show "\<exists>r rest. upload_loop_oauth reply len (Num (int s)) n sent =
        Some (r, sent @ put_from len s # put_from len resume # rest) \<and> length rest \<le> m"
      unfolding step by blast
  qed
qed

lemma next_start_cases:
  assumes "hdr = Some (''bytes='' @ dec_nat a @ ''-'' @ dec_nat k) \<and> resume = k + 1 \<or>
           hdr = None \<and> resume = min (s + chunkSize) len"
  shows "next_start hdr (chunk_stop (Num (int s)) len) = Num (int resume)"
  using assms
proof
  assume "hdr = Some (''bytes='' @ dec_nat a @ ''-'' @ dec_nat k) \<and> resume = k + 1"
  then show ?thesis by (simp only: next_start_bytes) simp
next
  assume "hdr = None \<and> resume = min (s + chunkSize) len"
  then show ?thesis by (simp add: next_start_def chunk_stop_nat)
qed

text \<open>
  Claim C3.  Take a chunk PUT that starts at byte \<open>s\<close> and is answered with status 308,
  in a run that a later reply (the reply to PUT \<open>n + 1 + m\<close>) ends.  With a \<open>Range\<close>
  header \<open>bytes=a-k\<close> the next PUT starts at byte \<open>k + 1\<close>.  Without a \<open>Range\<close> header
  the next PUT starts at \<open>s\<close> plus the chunk size, or at the length of the payload if
  that is smaller, which is where the body of the PUT just sent stops.  The loop of
  youtube-upload returns, and the PUTs it has sent are the ones before, the PUT from
  \<open>s\<close>, the PUT from the new start, and at most \<open>m\<close> more.  So does the loop of
  youtube-oauth while the new start is below the length; from the length on it sends
  no further PUT and leaves with no result.  The offsets are taken up to
  \<open>Number.MAX_SAFE_INTEGER\<close>, where the sums of the loop are exact.
\<close>

theorem continue_resumes_after_acknowledged_byte:
  assumes "reply n = PutResp 308 hdr b"
    and "\<not> is_continue (reply (Suc n + m))"
    and "s + chunkSize \<le> max_safe_integer" and "len \<le> max_safe_integer"
    and "hdr = Some (''bytes='' @ dec_nat a @ ''-'' @ dec_nat k) \<and>
           k + 1 + chunkSize \<le> max_safe_integer \<and> resume = k + 1 \<or>
         hdr = None \<and> resume = min (s + chunkSize) len"
  shows
   "(\<exists>r rest. upload_loop_edge reply len (Num (int s)) n sent =
        Some (r, sent @ put_from len s # put_from len resume # rest) \<and> length rest \<le> m) \<and>
    (s < len \<and> resume < len \<longrightarrow>
       (\<exists>r rest. upload_loop_oauth reply len (Num (int s)) n sent =
          Some (r, sent @ put_from len s # put_from len resume # rest) \<and> length rest \<le> m)) \<and>
    (s < len \<and> len \<le> resume \<longrightarrow>
       upload_loop_oauth reply len (Num (int s)) n sent =
         Some (Exhausted, sent @ [put_from len s]))"
proof -
  from assms(5) have
    "hdr = Some (''bytes='' @ dec_nat a @ ''-'' @ dec_nat k) \<and> resume = k + 1 \<or>
     hdr = None \<and> resume = min (s + chunkSize) len" by blast
  then have nx: "next_start hdr (chunk_stop (Num (int s)) len) = Num (int resume)"
    by (rule next_start_cases)
  show ?thesis
    using edge_resumes[OF assms(1,2) nx, of sent] oauth_resumes[OF assms(1,2) nx, of sent]
    by blast
qed

theorem continue_resumes_after_acknowledged_byte_witness:
  "scenarioC_replies 0 = PutResp 308 (Some ''bytes=0-5242879'') JsonNull \<and>
   \<not> is_continue (scenarioC_replies 2) \<and>
   5242879 + 1 + chunkSize \<le> max_safe_integer \<and>
   upload_loop_edge scenarioC_replies 12582912 (Num 0) 0 [] =
     Some (Completed (JsonVideo (Some ''abc123'') None),
       [ChunkPut 5242880 ''bytes 0-5242879/12582912'' 0 5242880,
        ChunkPut 5242880 ''bytes 5242880-10485759/12582912'' 5242880 10485760,
        ChunkPut 2097152 ''bytes 10485760-12582911/12582912'' 10485760 12582912]) \<and>
   upload_loop_oauth scenarioC_replies 12582912 (Num 0) 0 [] =
     Some (Completed (JsonVideo (Some ''abc123'') None),
       [ChunkPut 5242880 ''bytes 0-5242879/12582912'' 0 5242880,
        ChunkPut 5242880 ''bytes 5242880-10485759/12582912'' 5242880 10485760,
        ChunkPut 2097152 ''bytes 10485760-12582911/12582912'' 10485760 12582912]) \<and>
   retransmit_replies 0 = PutResp 308 (Some ''bytes=0-1048575'') JsonNull \<and>
   \<not> is_continue (retransmit_replies 1) \<and>
   upload_loop_edge retransmit_replies 12582912 (Num 0) 0 [] =
     Some (Completed (JsonVideo (Some ''abc123'') None),
       [ChunkPut 5242880 ''bytes 0-5242879/12582912'' 0 5242880,
        ChunkPut 5242880 ''bytes 1048576-6291455/12582912'' 1048576 6291456]) \<and>
   upload_loop_oauth retransmit_replies 12582912 (Num 0) 0 [] =
     Some (Completed (JsonVideo (Some ''abc123'') None),
       [ChunkPut 5242880 ''bytes 0-5242879/12582912'' 0 5242880,
        ChunkPut 5242880 ''bytes 1048576-6291455/12582912'' 1048576 6291456]) \<and>
   scenarioC_replies 1 = PutResp 308 None JsonNull \<and>
   upload_loop_edge scenarioC_replies 12582912 (Num 5242880) 1 [] =
     Some (Completed (JsonVideo (Some ''abc123'') None),
       [ChunkPut 5242880 ''bytes 5242880-10485759/12582912'' 5242880 10485760,
        ChunkPut 2097152 ''bytes 10485760-12582911/12582912'' 10485760 12582912]) \<and>
   upload_loop_oauth scenarioC_replies 12582912 (Num 5242880) 1 [] =
     Some (Completed (JsonVideo (Some ''abc123'') None),
       [ChunkPut 5242880 ''bytes 5242880-10485759/12582912'' 5242880 10485760,
        ChunkPut 2097152 ''bytes 10485760-12582911/12582912'' 10485760 12582912])"
proof -
  have r0: "scenarioC_replies 0 = PutResp 308 (Some ''bytes=0-5242879'') JsonNull"
    and r1: "scenarioC_replies 1 = PutResp 308 None JsonNull"
    and r2: "scenarioC_replies 2 = PutResp 200 None (JsonVideo (Some ''abc123'') None)"
    and q0: "retransmit_replies 0 = PutResp 308 (Some ''bytes=0-1048575'') JsonNull"
    and q1: "retransmit_replies 1 = PutResp 200 None (JsonVideo (Some ''abc123'') None)"
    by (simp_all add: scenarioC_replies_def retransmit_replies_def)
  have r1': "scenarioC_replies (Suc 0) = PutResp 308 None JsonNull"
    and r2': "scenarioC_replies (Suc (Suc 0)) = PutResp 200 None (JsonVideo (Some ''abc123'') None)"
    and q1': "retransmit_replies (Suc 0) = PutResp 200 None (JsonVideo (Some ''abc123'') None)"
    by (simp_all add: scenarioC_replies_def retransmit_replies_def)
  have t2: "\<not> is_continue (scenarioC_replies (Suc 0 + 1))"
    and t2': "\<not> is_continue (scenarioC_replies (Suc 1 + 0))"
    and u1: "\<not> is_continue (retransmit_replies (Suc 0 + 0))"
    by (simp_all add: scenarioC_replies_def retransmit_replies_def)
  have d: "dec_nat 0 = ''0''" "dec_nat 5242879 = ''5242879''" "dec_nat 5242880 = ''5242880''"
    "dec_nat 1048575 = ''1048575''" "dec_nat 1048576 = ''1048576''"
    "dec_nat 6291455 = ''6291455''" "dec_nat 10485759 = ''10485759''"
    "dec_nat 10485760 = ''10485760''" "dec_nat 12582911 = ''12582911''"
    "dec_nat 12582912 = ''12582912''"
    by (simp_all add: dec_nat.simps digit_char_def)
  have b0: "0 + chunkSize \<le> max_safe_integer" "5242880 + chunkSize \<le> max_safe_integer"
    "(12582912 :: nat) \<le> max_safe_integer"
    "5242879 + 1 + chunkSize \<le> max_safe_integer" "1048575 + 1 + chunkSize \<le> max_safe_integer"
    by (simp_all add: chunkSize_def max_safe_integer_def)
  have h1: "Some ''bytes=0-5242879'' = Some (''bytes='' @ dec_nat 0 @ ''-'' @ dec_nat 5242879) \<and>
        5242879 + 1 + chunkSize \<le> max_safe_integer \<and> (5242880 :: nat) = 5242879 + 1 \<or>
      Some ''bytes=0-5242879'' = None \<and> 5242880 = min (0 + chunkSize) 12582912"
    using b0 by (simp add: d)
  have h2: "Some ''bytes=0-1048575'' = Some (''bytes='' @ dec_nat 0 @ ''-'' @ dec_nat 1048575) \<and>
        1048575 + 1 + chunkSize \<le> max_safe_integer \<and> (1048576 :: nat) = 1048575 + 1 \<or>
      Some ''bytes=0-1048575'' = None \<and> 1048576 = min (0 + chunkSize) 12582912"
    using b0 by (simp add: d)
  have h3: "None = Some (''bytes='' @ dec_nat 0 @ ''-'' @ dec_nat 0) \<and>
        0 + 1 + chunkSize \<le> max_safe_integer \<and> (10485760 :: nat) = 0 + 1 \<or>
      (None :: string option) = None \<and> 10485760 = min (5242880 + chunkSize) 12582912"
    by (simp add: chunkSize_def)
  have p: "put_from 12582912 0 = ChunkPut 5242880 ''bytes 0-5242879/12582912'' 0 5242880"
    "put_from 12582912 1048576 = ChunkPut 5242880 ''bytes 1048576-6291455/12582912'' 1048576 6291456"
    "put_from 12582912 5242880 = ChunkPut 5242880 ''bytes 5242880-10485759/12582912'' 5242880 10485760"
    "put_from 12582912 10485760 = ChunkPut 2097152 ''bytes 10485760-12582911/12582912'' 10485760 12582912"
    by (simp_all add: put_from_def chunkSize_def js_int_string_def d)
  have c: "chunk_put (Num 0) 12582912 = put_from 12582912 0"
    "chunk_put (Num 1048576) 12582912 = put_from 12582912 1048576"
    "chunk_put (Num 5242880) 12582912 = put_from 12582912 5242880"
    "chunk_put (Num 10485760) 12582912 = put_from 12582912 10485760"
    using chunk_put_nat[of 0 12582912] chunk_put_nat[of 1048576 12582912]
      chunk_put_nat[of 5242880 12582912] chunk_put_nat[of 10485760 12582912]
    by simp_all
  have s: "chunk_stop (Num 0) 12582912 = Num 5242880"
    "chunk_stop (Num 5242880) 12582912 = Num 10485760"
    by (simp_all add: chunk_stop_def js_add_def js_min_def chunkSize_def)
  have n: "next_start (Some ''bytes=0-5242879'') (Num 5242880) = Num 5242880"
    "next_start (Some ''bytes=0-1048575'') (Num 5242880) = Num 1048576"
    using next_start_bytes[of 0 5242879 "Num 5242880"] next_start_bytes[of 0 1048575 "Num 5242880"]
    by (simp_all add: d)
  have e3: "upload_loop_edge scenarioC_replies 12582912 (Num 10485760) (Suc (Suc 0)) sent =
      Some (Completed (JsonVideo (Some ''abc123'') None), sent @ [put_from 12582912 10485760])"
    for sent
    by (subst upload_loop_edge.simps) (simp add: r2' c)
  have e2: "upload_loop_edge scenarioC_replies 12582912 (Num 5242880) (Suc 0) sent =
      Some (Completed (JsonVideo (Some ''abc123'') None),
        sent @ [put_from 12582912 5242880, put_from 12582912 10485760])" for sent
    by (subst upload_loop_edge.simps) (simp add: r1' c s next_start_def e3)
  have e1: "upload_loop_edge scenarioC_replies 12582912 (Num 0) 0 [] =
      Some (Completed (JsonVideo (Some ''abc123'') None),
        [put_from 12582912 0, put_from 12582912 5242880, put_from 12582912 10485760])"
    by (subst upload_loop_edge.simps) (simp add: r0 c s n e2)
  have o3: "upload_loop_oauth scenarioC_replies 12582912 (Num 10485760) (Suc (Suc 0)) sent =
      Some (Completed (JsonVideo (Some ''abc123'') None), sent @ [put_from 12582912 10485760])"
    for sent
    by (subst upload_loop_oauth.simps) (simp add: r2' c js_less_def)
  have o2: "upload_loop_oauth scenarioC_replies 12582912 (Num 5242880) (Suc 0) sent =
      Some (Completed (JsonVideo (Some ''abc123'') None),
        sent @ [put_from 12582912 5242880, put_from 12582912 10485760])" for sent
    by (subst upload_loop_oauth.simps)
      (simp add: r1' c s next_start_def o3 js_less_def)
  have o1: "upload_loop_oauth scenarioC_replies 12582912 (Num 0) 0 [] =
      Some (Completed (JsonVideo (Some ''abc123'') None),
        [put_from 12582912 0, put_from 12582912 5242880, put_from 12582912 10485760])"
    by (subst upload_loop_oauth.simps) (simp add: r0 c s n o2 js_less_def)
  have f2: "upload_loop_edge retransmit_replies 12582912 (Num 1048576) (Suc 0) sent =
      Some (Completed (JsonVideo (Some ''abc123'') None), sent @ [put_from 12582912 1048576])"
    for sent
    by (subst upload_loop_edge.simps) (simp add: q1' c)
  have f1: "upload_loop_edge retransmit_replies 12582912 (Num 0) 0 [] =
      Some (Completed (JsonVideo (Some ''abc123'') None),
        [put_from 12582912 0, put_from 12582912 1048576])"
    by (subst upload_loop_edge.simps) (simp add: q0 c s n f2)
  have g2: "upload_loop_oauth retransmit_replies 12582912 (Num 1048576) (Suc 0) sent =
      Some (Completed (JsonVideo (Some ''abc123'') None), sent @ [put_from 12582912 1048576])"
    for sent
    by (subst upload_loop_oauth.simps) (simp add: q1' c js_less_def)
  have g1: "upload_loop_oauth retransmit_replies 12582912 (Num 0) 0 [] =
      Some (Completed (JsonVideo (Some ''abc123'') None),
        [put_from 12582912 0, put_from 12582912 1048576])"
    by (subst upload_loop_oauth.simps) (simp add: q0 c s n g2 js_less_def)
  note i1 = continue_resumes_after_acknowledged_byte[where reply = scenarioC_replies and n = 0
      and m = 1 and s = 0 and len = 12582912 and a = 0 and k = 5242879 and resume = 5242880
      and sent = "[]", OF r0 t2 b0(1) b0(3) h1]
  note i2 = continue_resumes_after_acknowledged_byte[where reply = retransmit_replies and n = 0
      and m = 0 and s = 0 and len = 12582912 and a = 0 and k = 1048575 and resume = 1048576
      and sent = "[]", OF q0 u1 b0(1) b0(3) h2]
  note i3 = continue_resumes_after_acknowledged_byte[where reply = scenarioC_replies and n = 1
      and m = 0 and s = 5242880 and len = 12582912 and a = 0 and k = 0 and resume = 10485760
      and sent = "[]", OF r1 t2' b0(2) b0(3) h3]
  show ?thesis
    using i1 i2 i3 r0 r1 q0 b0(4)
    by (simp add: e1 e2[of "[]", simplified] o1 o2[of "[]", simplified] f1 g1 p r2 r2' q1 q1')
qed

section \<open>The token check\<close>

text \<open>
  Claim C6.  For every connection row whose \<open>token_expires_at\<close> is null or more than
  five minutes (300000 ms) after the clock, the token check of youtube-upload and the
  token check of youtube-oauth both return the access token of the row and make no
  call: no request to the token endpoint and no update of the row.
\<close>

theorem token_check_keeps_unexpired_token:
  assumes "token_expires_at c = None \<or>
     (\<exists>t. token_expires_at c = Some (Instant t) \<and> 300000 < t - clock env)"
  shows "token_check_upload env c = (Inr (access_token c), []) \<and>
         token_check_oauth env c = (Inr (access_token c), [])"
  using assms by (auto simp: token_check_upload_def token_check_oauth_def expires_within_def)

theorem token_check_keeps_unexpired_token_witness:
  "token_expires_at fresh_row = Some (Instant 1600000) \<and>
   300000 < 1600000 - clock (upload_env fresh_row) \<and>
   token_check_upload (upload_env fresh_row) fresh_row = (Inr ''ya29.fresh'', []) \<and>
   token_check_oauth (upload_env fresh_row) fresh_row = (Inr ''ya29.fresh'', [])"
proof -
  have h: "token_expires_at fresh_row = Some (Instant 1600000)"
    "300000 < 1600000 - clock (upload_env fresh_row)"
    by (simp_all add: fresh_row_def upload_env_def)
  then have "token_expires_at fresh_row = None \<or>
     (\<exists>t. token_expires_at fresh_row = Some (Instant t) \<and> 300000 < t - clock (upload_env fresh_row))"
    by simp
  from token_check_keeps_unexpired_token[OF this] h show ?thesis by (simp add: fresh_row_def)
qed

text \<open>
  In youtube-oauth a token that expires within five minutes and cannot be refreshed
  stops the upload: the token check throws, and the action answers with the error
  without downloading the video or contacting the upload endpoint.
\<close>

lemma token_check_oauth_expired:
  assumes "token_expires_at c = Some (Instant t)" "t - clock env \<le> 300000"
    and "\<not> truthy (refresh_token c) \<or> (\<exists>st. token_reply env = RefreshNotOk st)"
  shows "(\<not> truthy (refresh_token c) \<longrightarrow> token_check_oauth env c = (Inl NoRefreshToken, [])) \<and>
         (truthy (refresh_token c) \<longrightarrow> (\<exists>st. token_reply env = RefreshNotOk st \<and>
            token_check_oauth env c =
              (Inl (RefreshError (RefreshRejected st)), [TokenRefresh (the (refresh_token c))])))"
  using assms
  by (auto simp: token_check_oauth_def expires_within_def truthy_def split: option.splits)

lemma upload_video_expired:
  assumes "token_expires_at c = Some (Instant t)" "t - clock env \<le> 300000"
    and "\<not> truthy (refresh_token c) \<or> (\<exists>st. token_reply env = RefreshNotOk st)"
    and "connection_row env = Some c"
  shows "\<exists>f calls. upload_video env j = Some (Inl f, calls) \<and> \<not> list_ex is_upload_call calls"
proof -
  from token_check_oauth_expired[OF assms(1-3)]
  obtain f cs where tc: "token_check_oauth env c = (Inl f, cs)"
    "cs = [] \<or> cs = [TokenRefresh (the (refresh_token c))]"
    by (cases "truthy (refresh_token c)") auto
  then show ?thesis
    using assms(4) by (auto simp: upload_video_def Let_def)
qed

lemma dec_nat_small: "dec_nat 0 = ''0''" "dec_nat 2 = ''2''" "dec_nat 3 = ''3''"
  by (simp_all add: dec_nat.simps digit_char_def)

lemma chunk_put_3: "chunk_put (Num 0) 3 = ChunkPut 3 ''bytes 0-2/3'' 0 3"
  by (simp add: chunk_put_def chunk_stop_def js_add_def js_min_def slice_index_def chunkSize_def
      js_num_string_def js_int_string_def dec_nat_small Let_def)

text \<open>
  Claim C5 does not hold for youtube-upload.  For a row that expired one second ago and
  has no refresh token, its token check throws nothing and keeps the stale token, and
  the function goes on to download the video, to open the upload session with the
  stale token and to send the chunk; the same happens, after the rejected call to the
  token endpoint, when the refresh is answered with status 400.  On the same rows the
  token check of youtube-oauth throws.
\<close>

theorem youtube_upload_goes_on_with_stale_token:
  "token_expires_at stale_row = Some (Instant (clock (upload_env stale_row) - 1000)) \<and>
   refresh_token stale_row = None \<and>
   token_check_upload (upload_env stale_row) stale_row = (Inr ''ya29.stale'', []) \<and>
   youtube_upload_handler (upload_env stale_row) upload_post =
     Some (\<lparr>status = 200,
            body = Success (Uploaded ''abc123'' ''https://www.youtube.com/watch?v=abc123'' ''Clip'')\<rparr>,
           [ConnectionSelect ''u1'' ''youtube'', VideoFetch ''https://cdn.example/clip.mp4'',
            UploadInit ''ya29.stale'' 3 ''video/mp4'' ''Clip'', ChunkPut 3 ''bytes 0-2/3'' 0 3]) \<and>
   token_reply (upload_env rejected_row) = RefreshNotOk 400 \<and>
   token_check_upload (upload_env rejected_row) rejected_row =
     (Inr ''ya29.stale'', [TokenRefresh ''1//revoked'']) \<and>
   token_check_oauth (upload_env stale_row) stale_row = (Inl NoRefreshToken, []) \<and>
   token_check_oauth (upload_env rejected_row) rejected_row =
     (Inl (RefreshError (RefreshRejected 400)), [TokenRefresh ''1//revoked''])"
proof -
  have l: "upload_loop_edge (\<lambda>n. PutResp 200 None (JsonVideo (Some ''abc123'') None)) 3 (Num 0) 0 cs =
      Some (Completed (JsonVideo (Some ''abc123'') None), cs @ [ChunkPut 3 ''bytes 0-2/3'' 0 3])" for cs
    by (subst upload_loop_edge.simps) (simp add: chunk_put_3)
  have t: "token_check_upload (upload_env stale_row) stale_row = (Inr ''ya29.stale'', [])"
    by (simp add: token_check_upload_def upload_env_def stale_row_def expires_within_def)
  have c: "connection_row (upload_env stale_row) = Some stale_row"
    by (simp add: upload_env_def)
  have tr: "transfer_upload (upload_env stale_row) ''https://cdn.example/clip.mp4'' ''Clip''
      ''ya29.stale'' [ConnectionSelect ''u1'' ''youtube''] =
     Some (Inr (Uploaded ''abc123'' ''https://www.youtube.com/watch?v=abc123'' ''Clip''),
           [ConnectionSelect ''u1'' ''youtube'', VideoFetch ''https://cdn.example/clip.mp4'',
            UploadInit ''ya29.stale'' 3 ''video/mp4'' ''Clip'', ChunkPut 3 ''bytes 0-2/3'' 0 3])"
    by (simp add: transfer_upload_def upload_env_def http_ok_def truthy_def l video_result_def
        or_default_def)
  have h: "youtube_upload_handler (upload_env stale_row) upload_post =
     Some (\<lparr>status = 200,
            body = Success (Uploaded ''abc123'' ''https://www.youtube.com/watch?v=abc123'' ''Clip'')\<rparr>,
           [ConnectionSelect ''u1'' ''youtube'', VideoFetch ''https://cdn.example/clip.mp4'',
            UploadInit ''ya29.stale'' 3 ''video/mp4'' ''Clip'', ChunkPut 3 ''bytes 0-2/3'' 0 3])"
    by (simp add: youtube_upload_handler_def youtube_upload_try_def c t tr
        upload_post_def empty_json_def truthy_def new_Response_def)
  show ?thesis
    using t h
    by (simp add: token_check_upload_def token_check_oauth_def upload_env_def stale_row_def
        rejected_row_def expires_within_def)
qed

section \<open>The status of the answers\<close>

text \<open>
  Claim C9, as stated, fails for the CORS preflight: youtube-oauth answers a request
  with method OPTIONS with status 204 and no body.
\<close>

theorem youtube_oauth_preflight_answers_204:
  "youtube_oauth_handler example_oauth_env preflight =
     Some (Returned \<lparr>status = 204, body = NoBody\<rparr>, [])"
  by (simp add: youtube_oauth_handler_def preflight_def new_Response_def)

text \<open>
  Claim C9, amended.  For every request whose method is not OPTIONS, every response
  that youtube-oauth returns has status 200: an error thrown in its \<open>try\<close> block is
  answered with status 200 and the body \<open>success: false\<close> with the error (whenever the
  \<open>catch\<close> can read \<open>process.env.NODE_ENV\<close>), and a success is answered with status 200
  as well, so the status does not tell them apart.  youtube-upload and instagram-oauth
  answer an error thrown in their \<open>try\<close> block with status 400.
\<close>

theorem youtube_oauth_answers_200:
  assumes "req_method req \<noteq> ''OPTIONS''"
  shows "(\<forall>r calls. youtube_oauth_handler env req = Some (Returned r, calls) \<longrightarrow> status r = 200) \<and>
    (\<forall>f calls v. youtube_oauth_try env req = Some (Inl f, calls) \<longrightarrow> node_env env = Returned v \<longrightarrow>
       youtube_oauth_handler env req = Some (Returned \<lparr>status = 200, body = Failure f\<rparr>, calls)) \<and>
    (\<forall>p calls. youtube_oauth_try env req = Some (Inr p, calls) \<longrightarrow>
       youtube_oauth_handler env req = Some (Returned \<lparr>status = 200, body = Success p\<rparr>, calls)) \<and>
    (\<forall>f calls. youtube_upload_try senv req = Some (Inl f, calls) \<longrightarrow>
       youtube_upload_handler senv req = Some (\<lparr>status = 400, body = Failure f\<rparr>, calls)) \<and>
    (\<forall>f calls. req_method req \<noteq> ''GET'' \<longrightarrow> instagram_oauth_try ienv req = (Inl f, calls) \<longrightarrow>
       instagram_oauth_handler ienv req = (\<lparr>status = 400, body = Failure f\<rparr>, calls))"
  using assms
  by (auto simp: youtube_oauth_handler_def youtube_upload_handler_def instagram_oauth_handler_def
      new_Response_def split: option.splits sum.splits outcome.splits prod.splits)

theorem youtube_oauth_answers_200_witness:
  "req_method unknown_action_post \<noteq> ''OPTIONS'' \<and>
   youtube_oauth_try example_oauth_env unknown_action_post = Some (Inl InvalidAction, []) \<and>
   youtube_oauth_handler example_oauth_env unknown_action_post =
     Some (Returned \<lparr>status = 200, body = Failure InvalidAction\<rparr>, []) \<and>
   youtube_upload_handler (upload_env stale_row) unknown_action_post =
     Some (\<lparr>status = 400, body = Failure MissingFields\<rparr>, []) \<and>
   req_method unknown_action_post \<noteq> ''GET'' \<and>
   instagram_oauth_handler example_instagram_env unknown_action_post =
     (\<lparr>status = 400, body = Failure InvalidAction\<rparr>, [])"
proof -
  have m: "req_method unknown_action_post \<noteq> ''OPTIONS''"
    by (simp add: unknown_action_post_def)
  have t: "youtube_oauth_try example_oauth_env unknown_action_post = Some (Inl InvalidAction, [])"
    by (simp add: youtube_oauth_try_def unknown_action_post_def example_oauth_env_def
        empty_json_def truthy_def)
  have n: "node_env example_oauth_env = Returned None"
    by (simp add: example_oauth_env_def)
  have u: "youtube_upload_try (upload_env stale_row) unknown_action_post = Some (Inl MissingFields, [])"
    by (simp add: youtube_upload_try_def unknown_action_post_def empty_json_def truthy_def)
  have g: "req_method unknown_action_post \<noteq> ''GET''"
    by (simp add: unknown_action_post_def)
  have i: "instagram_oauth_try example_instagram_env unknown_action_post = (Inl InvalidAction, [])"
    by (simp add: instagram_oauth_try_def unknown_action_post_def example_instagram_env_def
        empty_json_def truthy_def)
  show ?thesis
    using youtube_oauth_answers_200[OF m, of example_oauth_env "upload_env stale_row"
        example_instagram_env] m t n u g i
    by simp
qed

end
